theory Spec2Isabelle
  imports Complex_Main "HOL-Library.Sublist" "HOL-Library.Signed_Division"
begin

section \<open>Go's regular expressions, as far as the program's patterns use them\<close>

text \<open>
  The program compiles four patterns with \<^verbatim>\<open>regexp.MustCompile\<close> and reads them with
  \<^verbatim>\<open>FindStringSubmatch\<close>. Go's matcher returns the leftmost match and, among the matches
  that start there, the one a backtracking matcher finds first (alternatives left to right,
  greedy repetition longest first, lazy repetition shortest first). Strings are byte
  sequences. Every repetition of the four patterns is over a character class, and every
  class is a set of ASCII bytes or the complement of one, so matching byte by byte gives
  the same result as matching rune by rune.
\<close>

type_synonym crange = "char \<times> char"

definition in_range :: "char \<Rightarrow> crange \<Rightarrow> bool" where
  "in_range c r = ((of_char (fst r) :: nat) \<le> of_char c \<and> (of_char c :: nat) \<le> of_char (snd r))"

datatype cclass = OneOf "crange list" | NoneOf "crange list"

fun member_c :: "cclass \<Rightarrow> char \<Rightarrow> bool" where
  "member_c (OneOf rs) c = list_ex (in_range c) rs"
| "member_c (NoneOf rs) c = (\<not> list_ex (in_range c) rs)"

datatype re =
    Eps
  | Chr cclass
  | Seq re re
  | Alt re re
  | Star cclass
  | StarLazy cclass
  | Group nat re

type_synonym caps = "nat \<Rightarrow> string option"

text \<open>The remainders a repetition can leave, in the order the matcher tries them.\<close>

fun star :: "cclass \<Rightarrow> string \<Rightarrow> string list" where
  "star cs [] = [[]]"
| "star cs (x # xs) = (if member_c cs x then star cs xs @ [x # xs] else [x # xs])"

fun star_lazy :: "cclass \<Rightarrow> string \<Rightarrow> string list" where
  "star_lazy cs [] = [[]]"
| "star_lazy cs (x # xs) = (x # xs) # (if member_c cs x then star_lazy cs xs else [])"

text \<open>
  \<open>run r (s, c)\<close> lists every way \<open>r\<close> matches a prefix of \<open>s\<close>, as the rest of the input
  and the capture groups, in the matcher's order of preference.
\<close>

fun run :: "re \<Rightarrow> string \<times> caps \<Rightarrow> (string \<times> caps) list" where
  "run Eps sc = [sc]"
| "run (Chr cs) sc =
     (case fst sc of
        [] \<Rightarrow> []
      | x # xs \<Rightarrow> if member_c cs x then [(xs, snd sc)] else [])"
| "run (Seq r1 r2) sc = concat (map (run r2) (run r1 sc))"
| "run (Alt r1 r2) sc = run r1 sc @ run r2 sc"
| "run (Star cs) sc = map (\<lambda>s'. (s', snd sc)) (star cs (fst sc))"
| "run (StarLazy cs) sc = map (\<lambda>s'. (s', snd sc)) (star_lazy cs (fst sc))"
| "run (Group n r) sc =
     map (\<lambda>(s', c'). (s', c'(n \<mapsto> take (length (fst sc) - length s') (fst sc)))) (run r sc)"

fun num_groups :: "re \<Rightarrow> nat" where
  "num_groups (Seq r1 r2) = num_groups r1 + num_groups r2"
| "num_groups (Alt r1 r2) = num_groups r1 + num_groups r2"
| "num_groups (Group n r) = Suc (num_groups r)"
| "num_groups r = 0"

text \<open>The leftmost match: the first start position at which the pattern matches.\<close>

fun find_first :: "re \<Rightarrow> string \<Rightarrow> (string \<times> caps) option" where
  "find_first r s =
     (case run r (s, Map.empty) of
        (s', c) # rest \<Rightarrow> Some (take (length s - length s') s, c)
      | [] \<Rightarrow> (case s of [] \<Rightarrow> None | x # xs \<Rightarrow> find_first r xs))"

declare find_first.simps [simp del]

text \<open>
  \<^verbatim>\<open>FindStringSubmatch\<close>: the empty slice when nothing matches, else the matched text
  followed by the text of each group, empty for a group that took no part.
\<close>

definition FindStringSubmatch :: "re \<Rightarrow> string \<Rightarrow> string list" where
  "FindStringSubmatch r s =
     (case find_first r s of
        None \<Rightarrow> []
      | Some (m, c) \<Rightarrow>
          m # map (\<lambda>i. case c i of None \<Rightarrow> [] | Some g \<Rightarrow> g) [1..<Suc (num_groups r)])"

subsection \<open>Building blocks of the patterns\<close>

definition ch :: "char \<Rightarrow> re" where
  "ch c = Chr (OneOf [(c, c)])"

fun lit :: "string \<Rightarrow> re" where
  "lit [] = Eps"
| "lit (c # cs) = Seq (ch c) (lit cs)"

definition Opt :: "re \<Rightarrow> re" where
  "Opt r = Alt r Eps"

definition Plus :: "cclass \<Rightarrow> re" where
  "Plus cs = Seq (Chr cs) (Star cs)"

text \<open>Perl classes of RE2: \<^verbatim>\<open>\s\<close> is tab, newline, form feed, carriage return and space.\<close>

definition space_ranges :: "crange list" where
  "space_ranges = [(CHR 0x09, CHR 0x0A), (CHR 0x0C, CHR 0x0D), (CHR '' '', CHR '' '')]"

definition non_space :: cclass where
  "non_space = NoneOf space_ranges"

definition digit :: cclass where
  "digit = OneOf [(CHR ''0'', CHR ''9'')]"

definition id_char :: cclass where
  "id_char = OneOf [(CHR ''a'', CHR ''z''), (CHR ''A'', CHR ''Z''), (CHR ''0'', CHR ''9''),
                    (CHR ''_'', CHR ''_''), (CHR ''-'', CHR ''-'')]"

subsection \<open>The video and playlist patterns\<close>

text \<open>
  \<^verbatim>\<open>(?:https?:\/\/)?(?:www\.)?(?:youtube\.com\/(?:live\/|[^\/\n\s]+\/\S+\/|(?:v|e(?:mbed)?)\/|(?:s(?:horts)\/)|\S*?[?&]v=)|youtu\.be\/)([a-zA-Z0-9_-]*)\<close>
\<close>

text \<open>The five alternatives after the host, in their order.\<close>

definition branch_live :: re where
  "branch_live = lit ''live/''"

definition branch_segments :: re where
  "branch_segments =
     Seq (Plus (NoneOf ((CHR ''/'', CHR ''/'') # (CHR 0x0A, CHR 0x0A) # space_ranges)))
    (Seq (ch CHR ''/'') (Seq (Plus non_space) (ch CHR ''/'')))"

definition branch_embed :: re where
  "branch_embed = Seq (Alt (ch CHR ''v'') (Seq (ch CHR ''e'') (Opt (lit ''mbed'')))) (ch CHR ''/'')"

definition branch_shorts :: re where
  "branch_shorts = Seq (ch CHR ''s'') (Seq (lit ''horts'') (ch CHR ''/''))"

definition branch_query :: re where
  "branch_query =
     Seq (StarLazy non_space)
    (Seq (Chr (OneOf [(CHR ''?'', CHR ''?''), (CHR ''&'', CHR ''&'')])) (lit ''v=''))"

definition path_branches :: re where
  "path_branches =
     Alt branch_live (Alt branch_segments (Alt branch_embed (Alt branch_shorts branch_query)))"

text \<open>The group of the identifier, \<^verbatim>\<open>([a-zA-Z0-9_-]*)\<close>.\<close>

definition video_id_group :: re where
  "video_id_group = Group 1 (Star id_char)"

definition videoPattern :: re where
  "videoPattern =
     Seq (Opt (Seq (lit ''http'') (Seq (Opt (ch CHR ''s'')) (lit ''://''))))
    (Seq (Opt (lit ''www.''))
    (Seq (Alt (Seq (lit ''youtube.com/'') path_branches) (lit ''youtu.be/'')) video_id_group))"

text \<open>\<^verbatim>\<open>[?&]list=([a-zA-Z0-9_-]+)\<close>\<close>

definition playlist_id_group :: re where
  "playlist_id_group = Group 1 (Plus id_char)"

definition playlistPattern :: re where
  "playlistPattern =
     Seq (Chr (OneOf [(CHR ''?'', CHR ''?''), (CHR ''&'', CHR ''&'')]))
    (Seq (lit ''list='') playlist_id_group)"

text \<open>\<^verbatim>\<open>"captionTracks":(\[.*?\])\<close>, where the dot matches every byte but the newline.\<close>

definition captionTracksPattern :: re where
  "captionTracksPattern =
     Seq (lit (CHR 0x22 # ''captionTracks'' @ [CHR 0x22, CHR '':'']))
         (Group 1 (Seq (ch CHR ''['') (Seq (StarLazy (NoneOf [(CHR 0x0A, CHR 0x0A)])) (ch CHR '']''))))"

text \<open>
  \<^verbatim>\<open>(?i)PT(?:(\d+)H)?(?:(\d+)M)?(?:(\d+)S)?\<close>. Under \<^verbatim>\<open>(?i)\<close> a letter matches every
  rune of its case-folding orbit: two ASCII letters for P, T, H and M, and for S also U+017F
  (LATIN SMALL LETTER LONG S), the bytes C5 BF in UTF-8.
\<close>

definition ci :: "char \<Rightarrow> char \<Rightarrow> re" where
  "ci upper lower = Chr (OneOf [(upper, upper), (lower, lower)])"

definition seconds_unit :: re where
  "seconds_unit = Alt (ci CHR ''S'' CHR ''s'') (Seq (ch (CHR 0xC5)) (ch (CHR 0xBF)))"

text \<open>\<^verbatim>\<open>(?:(\d+)U)?\<close> for a unit \<open>U\<close>, the digits being group \<open>k\<close>.\<close>

definition optional_group :: "nat \<Rightarrow> re \<Rightarrow> re" where
  "optional_group k unit = Opt (Seq (Group k (Plus digit)) unit)"

definition duration_groups :: re where
  "duration_groups =
     Seq (optional_group 1 (ci CHR ''H'' CHR ''h''))
    (Seq (optional_group 2 (ci CHR ''M'' CHR ''m'')) (optional_group 3 seconds_unit))"

definition durationPattern :: re where
  "durationPattern = Seq (ci CHR ''P'' CHR ''p'') (Seq (ci CHR ''T'' CHR ''t'') duration_groups)"

section \<open>Errors, collaborators and the engine's state\<close>

text \<open>
  Every \<^verbatim>\<open>fmt.Errorf\<close> of the program is a constructor, named after the failure it reports;
  \<open>External\<close> is an error handed up by a collaborator (the platform API client, the HTTP
  transport, a decoder, the file system).
\<close>

datatype error =
    External string
  | InvalidURL string
  | PlaylistNotVideo
  | TranscriptUnavailable error
  | InitServiceError error
  | CreateRequestError error
  | FetchPageError error
  | FetchPageStatus nat
  | ReadBodyError error
  | UnmarshalError error
  | NoSuitableURL
  | TranscriptRequestError string error
  | FetchTranscriptError string error
  | FetchTranscriptStatus string nat
  | ReadTranscriptError string error
  | TranscriptNotFound
  | VideoDetailsError error
  | InvalidDuration string
  | MetadataError error
  | DurationError error
  | CommentsError error
  | NotFound string

datatype panic = NilDereference | IndexOutOfRange

datatype 'a outcome = Return 'a | Panic panic

text \<open>A \<^verbatim>\<open>float64\<close>: a finite value as the rational it denotes, or one of the three others.\<close>

datatype float64 = Finite rat | PosInf | NegInf | NaN

text \<open>What the platform API returns of a video and of a comment thread, as far as it is read.\<close>

record video =
  video_Id :: string
  video_Title :: string
  video_Description :: string
  video_PublishedAt :: string
  video_ChannelId :: string
  video_ChannelTitle :: string
  video_CategoryId :: string
  video_Tags :: "string list"
  video_ViewCount :: nat
  video_LikeCount :: nat
  video_Duration :: string

record thread =
  TopLevelComment :: string
  Replies :: "string list option"

datatype response = Response (StatusCode: nat) (Body: "error + string")

text \<open>An element of a parsed document: its text and its attributes.\<close>

record tag =
  tag_Text :: string
  tag_Attrs :: "string \<Rightarrow> string option"

type_synonym header = "string \<times> string"

datatype request =
    NewServiceCall
  | VideosListCall "string list" string
  | CommentThreadsListCall string
  | HttpGet string "header list"

text \<open>
  The collaborators. A network call may answer differently each time it is made, so it
  takes the number of requests made before it; the parsers and converters of the
  libraries are functions of their input.
\<close>

record platform =
  NewService :: "nat \<Rightarrow> error option"
  VideosList :: "nat \<Rightarrow> string list \<Rightarrow> string \<Rightarrow> error + video list"
  CommentThreadsList :: "nat \<Rightarrow> string \<Rightarrow> error + thread list"
  NewRequest :: "string \<Rightarrow> error option"
  ClientDo :: "nat \<Rightarrow> string \<Rightarrow> header list \<Rightarrow> error + response"
  FindAllScript :: "string \<Rightarrow> string list"
  FindAllText :: "string \<Rightarrow> tag list"
  Unmarshal :: "string \<Rightarrow> error + string list"
  URLParse :: "string \<Rightarrow> error + string"
  ParseQuery :: "string \<Rightarrow> string \<Rightarrow> string list option"
  ParseFloat :: "string \<Rightarrow> float64"
  AddFloat :: "float64 \<Rightarrow> float64 \<Rightarrow> float64"
  SprintfF :: "float64 \<Rightarrow> string"

text \<open>
  The engine: whether the API client has been built (\<^verbatim>\<open>o.service != nil\<close>), and the
  requests made so far, oldest first.
\<close>

record YouTube =
  service :: bool
  requests :: "request list"

definition record_request :: "request \<Rightarrow> YouTube \<Rightarrow> YouTube" where
  "record_request r yt = yt\<lparr>requests := requests yt @ [r]\<rparr>"

definition initService :: "platform \<Rightarrow> YouTube \<Rightarrow> error option \<times> YouTube" where
  "initService e yt =
     (if \<not> service yt then
        (case NewService e (length (requests yt)) of
           None \<Rightarrow> (None, record_request NewServiceCall (yt\<lparr>service := True\<rparr>))
         | Some err \<Rightarrow> (Some err, record_request NewServiceCall yt))
      else (None, yt))"

section \<open>Identifier resolution\<close>

definition GetVideoOrPlaylistId ::
  "platform \<Rightarrow> string \<Rightarrow> YouTube \<Rightarrow> (string \<times> string \<times> error option) \<times> YouTube" where
  "GetVideoOrPlaylistId e url yt =
     (case initService e yt of
        (Some err, yt') \<Rightarrow> (('''', '''', Some err), yt')
      | (None, yt') \<Rightarrow>
          (let videoMatch = FindStringSubmatch videoPattern url;
               videoId = (if length videoMatch > 1 then videoMatch ! 1 else '''');
               playlistMatch = FindStringSubmatch playlistPattern url;
               playlistId = (if length playlistMatch > 1 then playlistMatch ! 1 else '''')
           in ((videoId, playlistId,
                if videoId = '''' \<and> playlistId = '''' then Some (InvalidURL url) else None), yt')))"

text \<open>The video identifier the resolution reads off a URL.\<close>

definition video_id_of :: "string \<Rightarrow> string" where
  "video_id_of url =
     (let videoMatch = FindStringSubmatch videoPattern url
      in if length videoMatch > 1 then videoMatch ! 1 else [])"

section \<open>Transcripts\<close>

subsection \<open>Library functions on strings and numbers\<close>

text \<open>\<^verbatim>\<open>strings.Contains\<close>.\<close>

fun Contains :: "string \<Rightarrow> string \<Rightarrow> bool" where
  "Contains [] substr = (substr = [])"
| "Contains (c # cs) substr = (prefix substr (c # cs) \<or> Contains cs substr)"

text \<open>
  \<^verbatim>\<open>strings.ReplaceAll\<close> for a non-empty \<open>old\<close>, the only way the program calls it: the
  occurrences of \<open>old\<close> are replaced from the left, each search starting after the last
  replacement.
\<close>

fun ReplaceAll :: "string \<Rightarrow> string \<Rightarrow> string \<Rightarrow> string" where
  "ReplaceAll [] (p # ps) new = []"
| "ReplaceAll (c # cs) (p # ps) new =
     (if prefix (p # ps) (c # cs) then new @ ReplaceAll (drop (length ps) cs) (p # ps) new
      else c # ReplaceAll cs (p # ps) new)"
| "ReplaceAll s [] new = undefined"

definition unescape :: "string \<Rightarrow> string" where
  "unescape s = ReplaceAll s ''&#39;'' [CHR 0x27]"

text \<open>
  The conversion \<^verbatim>\<open>int(seconds)\<close> drops the fraction. For a value that \<^verbatim>\<open>int\<close> (64 bits)
  cannot hold the language leaves the result to the implementation; this is amd64's.
\<close>

definition int_of_float64 :: "float64 \<Rightarrow> int" where
  "int_of_float64 f =
     (case f of
        Finite q \<Rightarrow>
          (let t = (if 0 \<le> q then \<lfloor>q\<rfloor> else \<lceil>q\<rceil>)
           in if - (2 ^ 63) \<le> t \<and> t < 2 ^ 63 then t else - (2 ^ 63))
      | _ \<Rightarrow> - (2 ^ 63))"

text \<open>Decimal digits of a natural number, and \<^verbatim>\<open>fmt.Sprintf("%02d", n)\<close>.\<close>

definition digit_char :: "nat \<Rightarrow> char" where
  "digit_char d = ''0123456789'' ! d"

fun digits :: "nat \<Rightarrow> string" where
  "digits n = (if n < 10 then [digit_char n] else digits (n div 10) @ [digit_char (n mod 10)])"

declare digits.simps [simp del]

definition Sprintf02d :: "int \<Rightarrow> string" where
  "Sprintf02d n =
     (if n < 0 then CHR ''-'' # digits (nat (- n))
      else if n < 10 then CHR ''0'' # digits (nat n)
      else digits (nat n))"

subsection \<open>Timestamps\<close>

definition formatTimestamp :: "float64 \<Rightarrow> string" where
  "formatTimestamp seconds =
     (let hours = int_of_float64 seconds sdiv 3600;
          minutes = (int_of_float64 seconds smod 3600) sdiv 60;
          secs = int_of_float64 seconds smod 60
      in Sprintf02d hours @ '':'' @ Sprintf02d minutes @ '':'' @ Sprintf02d secs)"

subsection \<open>Fetching the caption document\<close>

definition watch_headers :: "header list" where
  "watch_headers =
     [(''User-Agent'', ''Mozilla/5.0 (Windows NT 10.0; Win64; x64) AppleWebKit/537.36 (KHTML, like Gecko) Chrome/124.0.0.0 Safari/537.36''),
      (''Accept-Language'', ''en-US,en;q=0.9'')]"

text \<open>\<^verbatim>\<open>client.Do\<close> of a GET request.\<close>

definition client_Do ::
  "platform \<Rightarrow> string \<Rightarrow> header list \<Rightarrow> YouTube \<Rightarrow> (error + response) \<times> YouTube" where
  "client_Do e url hs yt = (ClientDo e (length (requests yt)) url hs, record_request (HttpGet url hs) yt)"

text \<open>
  The loop over the caption tracks: the first track whose URL parses and whose first
  \<^verbatim>\<open>lang\<close> parameter is the language asked for. A track whose URL does not parse is skipped.
\<close>

fun find_lang_match :: "platform \<Rightarrow> string \<Rightarrow> string list \<Rightarrow> string option" where
  "find_lang_match e language [] = None"
| "find_lang_match e language (baseURL # rest) =
     (case URLParse e baseURL of
        Inl parseErr \<Rightarrow> find_lang_match e language rest
      | Inr rawQuery \<Rightarrow>
          (case ParseQuery e rawQuery ''lang'' of
             None \<Rightarrow> find_lang_match e language rest
           | Some langParam \<Rightarrow>
               if length langParam > 0 \<and> langParam ! 0 = language then Some baseURL
               else find_lang_match e language rest))"

text \<open>The choice of the transcript URL among a non-empty list of tracks.\<close>

definition select_track :: "platform \<Rightarrow> string \<Rightarrow> string list \<Rightarrow> error + string" where
  "select_track e language captionTracks =
     (let found = find_lang_match e language captionTracks;
          foundLangMatch = (found \<noteq> None);
          finalTranscriptURL = (case found of Some u \<Rightarrow> u | None \<Rightarrow> '''');
          finalTranscriptURL =
            (if \<not> foundLangMatch \<and> length captionTracks > 0 then captionTracks ! 0
             else finalTranscriptURL)
      in if finalTranscriptURL = '''' then Inl NoSuitableURL else Inr finalTranscriptURL)"

text \<open>
  For the statements about the choice: the language of a track is the first value of the
  \<^verbatim>\<open>lang\<close> parameter of its URL, if the URL parses and has one; the track chosen for a
  language is the first one of that language, or the first track if there is none.
\<close>

definition lang_of :: "platform \<Rightarrow> string \<Rightarrow> string option" where
  "lang_of e baseURL =
     (case URLParse e baseURL of
        Inl parseErr \<Rightarrow> None
      | Inr rawQuery \<Rightarrow>
          (case ParseQuery e rawQuery ''lang'' of
             None \<Rightarrow> None
           | Some langParam \<Rightarrow> (case langParam of [] \<Rightarrow> None | l # ls \<Rightarrow> Some l)))"

definition chosen_track :: "platform \<Rightarrow> string \<Rightarrow> string list \<Rightarrow> string" where
  "chosen_track e language tracks =
     (case find (\<lambda>u. lang_of e u = Some language) tracks of Some u \<Rightarrow> u | None \<Rightarrow> hd tracks)"

definition fetch_transcript ::
  "platform \<Rightarrow> string \<Rightarrow> YouTube \<Rightarrow> (string \<times> error option) \<times> YouTube" where
  "fetch_transcript e finalTranscriptURL yt =
     (case NewRequest e finalTranscriptURL of
        Some reqErr \<Rightarrow> (('''', Some (TranscriptRequestError finalTranscriptURL reqErr)), yt)
      | None \<Rightarrow>
          (case client_Do e finalTranscriptURL [] yt of
             (Inl doErr, yt') \<Rightarrow> (('''', Some (FetchTranscriptError finalTranscriptURL doErr)), yt')
           | (Inr resp, yt') \<Rightarrow>
               if StatusCode resp \<noteq> 200
               then (('''', Some (FetchTranscriptStatus finalTranscriptURL (StatusCode resp))), yt')
               else (case Body resp of
                       Inl readErr \<Rightarrow> (('''', Some (ReadTranscriptError finalTranscriptURL readErr)), yt')
                     | Inr transcriptBody \<Rightarrow> ((transcriptBody, None), yt'))))"

text \<open>The loop over the script elements of the watch page.\<close>

fun scan_scripts ::
  "platform \<Rightarrow> string \<Rightarrow> string list \<Rightarrow> YouTube \<Rightarrow> (string \<times> error option) \<times> YouTube" where
  "scan_scripts e language [] yt = (('''', Some TranscriptNotFound), yt)"
| "scan_scripts e language (script # rest) yt =
     (if Contains script ''captionTracks'' then
        (let match = FindStringSubmatch captionTracksPattern script in
         if length match > 1 then
           (case Unmarshal e (match ! 1) of
              Inl err \<Rightarrow> (('''', Some (UnmarshalError err)), yt)
            | Inr captionTracks \<Rightarrow>
                if length captionTracks > 0 then
                  (case select_track e language captionTracks of
                     Inl err \<Rightarrow> (('''', Some err), yt)
                   | Inr finalTranscriptURL \<Rightarrow> fetch_transcript e finalTranscriptURL yt)
                else scan_scripts e language rest yt)
         else scan_scripts e language rest yt)
      else scan_scripts e language rest yt)"

definition GrabTranscriptBase ::
  "platform \<Rightarrow> string \<Rightarrow> string \<Rightarrow> YouTube \<Rightarrow> (string \<times> error option) \<times> YouTube" where
  "GrabTranscriptBase e videoId language yt =
     (case initService e yt of
        (Some err, yt1) \<Rightarrow> (('''', Some (InitServiceError err)), yt1)
      | (None, yt1) \<Rightarrow>
          (let watchUrl = ''https://www.youtube.com/watch?v='' @ videoId in
           case NewRequest e watchUrl of
             Some err \<Rightarrow> (('''', Some (CreateRequestError err)), yt1)
           | None \<Rightarrow>
               (case client_Do e watchUrl watch_headers yt1 of
                  (Inl err, yt2) \<Rightarrow> (('''', Some (FetchPageError err)), yt2)
                | (Inr httpResp, yt2) \<Rightarrow>
                    if StatusCode httpResp \<noteq> 200
                    then (('''', Some (FetchPageStatus (StatusCode httpResp))), yt2)
                    else (case Body httpResp of
                            Inl err \<Rightarrow> (('''', Some (ReadBodyError err)), yt2)
                          | Inr pageContent \<Rightarrow>
                              scan_scripts e language (FindAllScript e pageContent) yt2))))"

subsection \<open>The two transcripts\<close>

text \<open>
  The loop of \<^verbatim>\<open>GrabTranscript\<close> over the caption nodes: \<open>b\<close> is the string builder, \<open>ret\<close>
  the result, assigned at the end of every round.
\<close>

fun transcript_loop :: "tag list \<Rightarrow> string \<Rightarrow> string \<Rightarrow> string" where
  "transcript_loop [] b ret = ret"
| "transcript_loop (textTag # rest) b ret =
     (let b1 = b @ unescape (tag_Text textTag);
          b2 = b1 @ '' ''
      in transcript_loop rest b2 b2)"

definition GrabTranscript ::
  "platform \<Rightarrow> string \<Rightarrow> string \<Rightarrow> YouTube \<Rightarrow> (string \<times> error option) \<times> YouTube" where
  "GrabTranscript e videoId language yt =
     (case GrabTranscriptBase e videoId language yt of
        ((transcript, Some err), yt') \<Rightarrow> (('''', Some (TranscriptUnavailable err)), yt')
      | ((transcript, None), yt') \<Rightarrow>
          ((transcript_loop (FindAllText e transcript) '''' '''', None), yt'))"

text \<open>Texts joined with one space between neighbours.\<close>

definition separated :: "string list \<Rightarrow> string" where
  "separated texts = (case texts of [] \<Rightarrow> [] | t # ts \<Rightarrow> t @ concat (map (\<lambda>u. '' '' @ u) ts))"

definition attr :: "tag \<Rightarrow> string \<Rightarrow> string" where
  "attr t k = (case tag_Attrs t k of None \<Rightarrow> '''' | Some v \<Rightarrow> v)"

definition timestamp_line :: "platform \<Rightarrow> tag \<Rightarrow> string" where
  "timestamp_line e textTag =
     (let start = attr textTag ''start'';
          dur = attr textTag ''dur'';
          end_s = SprintfF e (AddFloat e (ParseFloat e start) (ParseFloat e dur));
          startFormatted = formatTimestamp (ParseFloat e start);
          endFormatted = formatTimestamp (ParseFloat e end_s);
          txt_s = unescape (tag_Text textTag)
      in ''['' @ startFormatted @ '' - '' @ endFormatted @ ''] '' @ txt_s @ [CHR 0x0A])"

definition GrabTranscriptWithTimestamps ::
  "platform \<Rightarrow> string \<Rightarrow> string \<Rightarrow> YouTube \<Rightarrow> (string \<times> error option) \<times> YouTube" where
  "GrabTranscriptWithTimestamps e videoId language yt =
     (case GrabTranscriptBase e videoId language yt of
        ((transcript, Some err), yt') \<Rightarrow> (('''', Some (TranscriptUnavailable err)), yt')
      | ((transcript, None), yt') \<Rightarrow>
          ((concat (map (timestamp_line e) (FindAllText e transcript)), None), yt'))"

section \<open>Duration, comments and metadata\<close>

text \<open>
  Go's \<^verbatim>\<open>int\<close> is taken as 64 bits wide (the build targets a 64-bit Linux): arithmetic
  wraps around.
\<close>

definition wrap64 :: "int \<Rightarrow> int" where
  "wrap64 x = (x + 2 ^ 63) mod 2 ^ 64 - 2 ^ 63"

definition is_digit :: "char \<Rightarrow> bool" where
  "is_digit c = in_range c (CHR ''0'', CHR ''9'')"

definition decimal :: "string \<Rightarrow> nat" where
  "decimal ds = foldl (\<lambda>n c. 10 * n + (of_char c - 48)) 0 ds"

text \<open>
  \<^verbatim>\<open>strconv.Atoi\<close>: an optional sign and decimal digits; a value out of range is
  replaced by the nearest bound and reported, anything else is a syntax error with 0.
\<close>

definition Atoi :: "string \<Rightarrow> int \<times> error option" where
  "Atoi s =
     (let neg = (s \<noteq> [] \<and> hd s = CHR ''-'');
          ds = (if s \<noteq> [] \<and> (hd s = CHR ''-'' \<or> hd s = CHR ''+'') then tl s else s)
      in if ds = [] \<or> \<not> list_all is_digit ds
         then (0, Some (External ''strconv.Atoi: invalid syntax''))
         else if \<not> neg \<and> int (decimal ds) \<ge> 2 ^ 63
         then (2 ^ 63 - 1, Some (External ''strconv.Atoi: value out of range''))
         else if neg \<and> int (decimal ds) > 2 ^ 63
         then (- (2 ^ 63), Some (External ''strconv.Atoi: value out of range''))
         else (if neg then - int (decimal ds) else int (decimal ds), None))"

text \<open>The part of \<^verbatim>\<open>GrabDuration\<close> after the API call: from the duration string to minutes.\<close>

definition parse_duration :: "string \<Rightarrow> int \<times> error option" where
  "parse_duration durationStr =
     (let matches = FindStringSubmatch durationPattern durationStr in
      if length matches = 0 then (0, Some (InvalidDuration durationStr))
      else
        (let hours = fst (Atoi (matches ! 1));
             minutes = fst (Atoi (matches ! 2));
             seconds = fst (Atoi (matches ! 3))
         in (wrap64 (wrap64 (wrap64 (hours * 60) + minutes) + seconds sdiv 60), None)))"

text \<open>
  \<^verbatim>\<open>GrabDuration\<close> does not build the API client itself, and it reads the first item of the
  answer without looking at the length of the list.
\<close>

definition GrabDuration ::
  "platform \<Rightarrow> string \<Rightarrow> YouTube \<Rightarrow> (int \<times> error option) outcome \<times> YouTube" where
  "GrabDuration e videoId yt =
     (if \<not> service yt then (Panic NilDereference, yt)
      else
        (let yt' = record_request (VideosListCall [''contentDetails''] videoId) yt in
         case VideosList e (length (requests yt)) [''contentDetails''] videoId of
           Inl err \<Rightarrow> (Return (0, Some (VideoDetailsError err)), yt')
         | Inr items \<Rightarrow>
             (case items of
                [] \<Rightarrow> (Panic IndexOutOfRange, yt')
              | item # others \<Rightarrow> (Return (parse_duration (video_Duration item)), yt'))))"

definition GrabDurationForUrl ::
  "platform \<Rightarrow> string \<Rightarrow> YouTube \<Rightarrow> (int \<times> error option) outcome \<times> YouTube" where
  "GrabDurationForUrl e url yt =
     (case initService e yt of
        (Some err, yt1) \<Rightarrow> (Return (0, Some err), yt1)
      | (None, yt1) \<Rightarrow>
          (case GetVideoOrPlaylistId e url yt1 of
             ((videoId, playlistId, Some err), yt2) \<Rightarrow> (Return (0, Some err), yt2)
           | ((videoId, playlistId, None), yt2) \<Rightarrow>
               if videoId = '''' \<and> playlistId \<noteq> '''' then (Return (0, Some PlaylistNotVideo), yt2)
               else GrabDuration e videoId yt2))"

text \<open>
  For the statements about durations: a string holds the marker when a P is directly
  followed by a T, in either case, somewhere in it; a component of a duration string is
  absent or a number followed by its unit letter.
\<close>

fun has_PT :: "string \<Rightarrow> bool" where
  "has_PT (a # b # rest) =
     ((a = CHR ''P'' \<or> a = CHR ''p'') \<and> (b = CHR ''T'' \<or> b = CHR ''t'') \<or> has_PT (b # rest))"
| "has_PT s = False"

definition component :: "nat option \<Rightarrow> char \<Rightarrow> string" where
  "component n unit = (case n of None \<Rightarrow> [] | Some k \<Rightarrow> digits k @ [unit])"

definition amount :: "nat option \<Rightarrow> nat" where
  "amount n = (case n of None \<Rightarrow> 0 | Some k \<Rightarrow> k)"

definition comment_lines :: "thread \<Rightarrow> string list" where
  "comment_lines item =
     TopLevelComment item #
     (case Replies item of None \<Rightarrow> [] | Some rs \<Rightarrow> map (\<lambda>replyText. ''    - '' @ replyText) rs)"

definition GrabComments ::
  "platform \<Rightarrow> string \<Rightarrow> YouTube \<Rightarrow> (string list \<times> error option) \<times> YouTube" where
  "GrabComments e videoId yt =
     (case initService e yt of
        (Some err, yt1) \<Rightarrow> (([], Some err), yt1)
      | (None, yt1) \<Rightarrow>
          (let yt2 = record_request (CommentThreadsListCall videoId) yt1 in
           case CommentThreadsList e (length (requests yt1)) videoId of
             Inl err \<Rightarrow> (([], Some err), yt2)
           | Inr items \<Rightarrow> ((concat (map comment_lines items), None), yt2)))"

record VideoMetadata =
  meta_Id :: string
  meta_Title :: string
  meta_Description :: string
  meta_PublishedAt :: string
  meta_ChannelId :: string
  meta_ChannelTitle :: string
  meta_CategoryId :: string
  meta_Tags :: "string list"
  meta_ViewCount :: nat
  meta_LikeCount :: nat

definition GrabMetadata ::
  "platform \<Rightarrow> string \<Rightarrow> YouTube \<Rightarrow> (VideoMetadata option \<times> error option) \<times> YouTube" where
  "GrabMetadata e videoId yt =
     (case initService e yt of
        (Some err, yt1) \<Rightarrow> ((None, Some err), yt1)
      | (None, yt1) \<Rightarrow>
          (let yt2 = record_request (VideosListCall [''snippet'', ''statistics''] videoId) yt1 in
           case VideosList e (length (requests yt1)) [''snippet'', ''statistics''] videoId of
             Inl err \<Rightarrow> ((None, Some (MetadataError err)), yt2)
           | Inr items \<Rightarrow>
               if length items = 0 then ((None, Some (NotFound videoId)), yt2)
               else
                 (let video = items ! 0 in
                  ((Some \<lparr>meta_Id = video_Id video,
                           meta_Title = video_Title video,
                           meta_Description = video_Description video,
                           meta_PublishedAt = video_PublishedAt video,
                           meta_ChannelId = video_ChannelId video,
                           meta_ChannelTitle = video_ChannelTitle video,
                           meta_CategoryId = video_CategoryId video,
                           meta_Tags = video_Tags video,
                           meta_ViewCount = video_ViewCount video,
                           meta_LikeCount = video_LikeCount video\<rparr>, None), yt2))))"

section \<open>The aggregate\<close>

record Options =
  Duration :: bool
  Transcript :: bool
  TranscriptWithTimestamps :: bool
  Comments :: bool
  Lang :: string
  Metadata :: bool

record VideoInfo =
  info_Transcript :: string
  info_Duration :: int
  info_Comments :: "string list"
  info_Metadata :: "VideoMetadata option"

definition VideoInfo_zero :: VideoInfo where
  "VideoInfo_zero = \<lparr>info_Transcript = '''', info_Duration = 0, info_Comments = [], info_Metadata = None\<rparr>"

type_synonym grab_result = "(VideoInfo option \<times> error option) outcome \<times> YouTube"

text \<open>
  \<^verbatim>\<open>Grab\<close> is a sequence of five blocks, one per field, each of which may return. The
  model has one definition per block, the last block first; \<open>ret\<close> is the result being
  filled in.
\<close>

definition grab_timestamps :: "platform \<Rightarrow> string \<Rightarrow> Options \<Rightarrow> VideoInfo \<Rightarrow> YouTube \<Rightarrow> grab_result" where
  "grab_timestamps e videoId options ret yt =
     (if TranscriptWithTimestamps options then
        (case GrabTranscriptWithTimestamps e videoId ''en'' yt of
           ((t, Some err), yt') \<Rightarrow> (Return (Some (ret\<lparr>info_Transcript := t\<rparr>), Some err), yt')
         | ((t, None), yt') \<Rightarrow> (Return (Some (ret\<lparr>info_Transcript := t\<rparr>), None), yt'))
      else (Return (Some ret, None), yt))"

definition grab_transcript :: "platform \<Rightarrow> string \<Rightarrow> Options \<Rightarrow> VideoInfo \<Rightarrow> YouTube \<Rightarrow> grab_result" where
  "grab_transcript e videoId options ret yt =
     (if Transcript options then
        (case GrabTranscript e videoId ''en'' yt of
           ((t, Some err), yt') \<Rightarrow> (Return (Some (ret\<lparr>info_Transcript := t\<rparr>), Some err), yt')
         | ((t, None), yt') \<Rightarrow> grab_timestamps e videoId options (ret\<lparr>info_Transcript := t\<rparr>) yt')
      else grab_timestamps e videoId options ret yt)"

definition grab_comments :: "platform \<Rightarrow> string \<Rightarrow> Options \<Rightarrow> VideoInfo \<Rightarrow> YouTube \<Rightarrow> grab_result" where
  "grab_comments e videoId options ret yt =
     (if Comments options then
        (case GrabComments e videoId yt of
           ((cs, Some err), yt') \<Rightarrow>
             (Return (Some (ret\<lparr>info_Comments := cs\<rparr>), Some (CommentsError err)), yt')
         | ((cs, None), yt') \<Rightarrow> grab_transcript e videoId options (ret\<lparr>info_Comments := cs\<rparr>) yt')
      else grab_transcript e videoId options ret yt)"

definition grab_duration :: "platform \<Rightarrow> string \<Rightarrow> Options \<Rightarrow> VideoInfo \<Rightarrow> YouTube \<Rightarrow> grab_result" where
  "grab_duration e videoId options ret yt =
     (if Duration options then
        (case GrabDuration e videoId yt of
           (Panic p, yt') \<Rightarrow> (Panic p, yt')
         | (Return (d, Some err), yt') \<Rightarrow>
             (Return (Some (ret\<lparr>info_Duration := d\<rparr>), Some (DurationError err)), yt')
         | (Return (d, None), yt') \<Rightarrow> grab_comments e videoId options (ret\<lparr>info_Duration := d\<rparr>) yt')
      else grab_comments e videoId options ret yt)"

definition grab_metadata :: "platform \<Rightarrow> string \<Rightarrow> Options \<Rightarrow> VideoInfo \<Rightarrow> YouTube \<Rightarrow> grab_result" where
  "grab_metadata e videoId options ret yt =
     (if Metadata options then
        (case GrabMetadata e videoId yt of
           ((m, Some err), yt') \<Rightarrow>
             (Return (Some (ret\<lparr>info_Metadata := m\<rparr>), Some (MetadataError err)), yt')
         | ((m, None), yt') \<Rightarrow> grab_duration e videoId options (ret\<lparr>info_Metadata := m\<rparr>) yt')
      else grab_duration e videoId options ret yt)"

definition Grab :: "platform \<Rightarrow> string \<Rightarrow> Options \<Rightarrow> YouTube \<Rightarrow> grab_result" where
  "Grab e url options yt =
     (case GetVideoOrPlaylistId e url yt of
        ((videoId, playlistId, Some err), yt') \<Rightarrow> (Return (None, Some err), yt')
      | ((videoId, playlistId, None), yt') \<Rightarrow>
          if videoId = '''' \<and> playlistId \<noteq> '''' then (Return (None, Some PlaylistNotVideo), yt')
          else grab_metadata e videoId options VideoInfo_zero yt')"

text \<open>
  A field passes when it is not asked for, and then keeps its zero value and makes no
  request, or when its operation returns a value and no error.
\<close>

definition metadata_passes ::
  "platform \<Rightarrow> string \<Rightarrow> Options \<Rightarrow> YouTube \<Rightarrow> VideoMetadata option \<Rightarrow> YouTube \<Rightarrow> bool" where
  "metadata_passes e v options yt m yt' =
     (if Metadata options then GrabMetadata e v yt = ((m, None), yt') else m = None \<and> yt' = yt)"

definition duration_passes ::
  "platform \<Rightarrow> string \<Rightarrow> Options \<Rightarrow> YouTube \<Rightarrow> int \<Rightarrow> YouTube \<Rightarrow> bool" where
  "duration_passes e v options yt d yt' =
     (if Duration options then GrabDuration e v yt = (Return (d, None), yt') else d = 0 \<and> yt' = yt)"

definition comments_pass ::
  "platform \<Rightarrow> string \<Rightarrow> Options \<Rightarrow> YouTube \<Rightarrow> string list \<Rightarrow> YouTube \<Rightarrow> bool" where
  "comments_pass e v options yt cs yt' =
     (if Comments options then GrabComments e v yt = ((cs, None), yt') else cs = [] \<and> yt' = yt)"

definition transcript_passes ::
  "platform \<Rightarrow> string \<Rightarrow> Options \<Rightarrow> YouTube \<Rightarrow> string \<Rightarrow> YouTube \<Rightarrow> bool" where
  "transcript_passes e v options yt t yt' =
     (if Transcript options then GrabTranscript e v ''en'' yt = ((t, None), yt') else t = [] \<and> yt' = yt)"

section \<open>Example collaborators\<close>

text \<open>
  A platform without network: the API answers with empty lists, every HTTP request fails.
  Its URL functions read a URL with at most one query parameter. The examples below change
  the fields they need.
\<close>

definition offline :: platform where
  "offline =
     \<lparr>NewService = (\<lambda>n. None),
      VideosList = (\<lambda>n parts videoId. Inr []),
      CommentThreadsList = (\<lambda>n videoId. Inr []),
      NewRequest = (\<lambda>url. None),
      ClientDo = (\<lambda>n url hs. Inl (External ''no network'')),
      FindAllScript = (\<lambda>page. []),
      FindAllText = (\<lambda>doc. []),
      Unmarshal = (\<lambda>json. Inr []),
      URLParse = (\<lambda>url. Inr (drop 1 (dropWhile (\<lambda>c. c \<noteq> CHR ''?'') url))),
      ParseQuery = (\<lambda>q k. if prefix (k @ ''='') q then Some [drop (Suc (length k)) q] else None),
      ParseFloat = (\<lambda>s. Finite 0),
      AddFloat = (\<lambda>a b. a),
      SprintfF = (\<lambda>f. ''0.000000'')\<rparr>"

definition ready :: YouTube where
  "ready = \<lparr>service = True, requests = []\<rparr>"

definition fresh :: YouTube where
  "fresh = \<lparr>service = False, requests = []\<rparr>"

text \<open>
  A platform that serves one video, \<open>abc\<close>, with caption tracks in Spanish and English (in
  this order), and the same platform when the network breaks after the third request.
\<close>

definition caption_script :: string where
  "caption_script =
     ''var r = {'' @ [CHR 0x22] @ ''captionTracks'' @ [CHR 0x22] @ '':[{u:/tt?lang=es},{u:/tt?lang=en}]};''"

definition online :: platform where
  "online = offline
     \<lparr>ClientDo := (\<lambda>n url hs.
        if url = ''https://www.youtube.com/watch?v=abc'' then Inr (Response 200 (Inr ''<watch page>''))
        else if url = ''/tt?lang=es'' then Inr (Response 200 (Inr ''<captions es>''))
        else if url = ''/tt?lang=en'' then Inr (Response 200 (Inr ''<captions en>''))
        else Inl (External ''no such host'')),
      FindAllScript := (\<lambda>page. if page = ''<watch page>'' then [''var x = 1;'', caption_script] else []),
      Unmarshal := (\<lambda>json.
        if json = ''[{u:/tt?lang=es},{u:/tt?lang=en}]'' then Inr [''/tt?lang=es'', ''/tt?lang=en'']
        else Inl (External ''invalid character'')),
      FindAllText := (\<lambda>doc.
        if doc = ''<captions en>''
        then [\<lparr>tag_Text = ''it&#39;s'', tag_Attrs = [''start'' \<mapsto> ''0'', ''dur'' \<mapsto> ''1.5'']\<rparr>,
              \<lparr>tag_Text = ''fine'', tag_Attrs = [''start'' \<mapsto> ''1.5'', ''dur'' \<mapsto> ''2'']\<rparr>]
        else if doc = ''<captions es>''
        then [\<lparr>tag_Text = ''vale'', tag_Attrs = [''start'' \<mapsto> ''0'', ''dur'' \<mapsto> ''2'']\<rparr>]
        else [])\<rparr>"

definition flaky :: platform where
  "flaky = online
     \<lparr>ClientDo := (\<lambda>n url hs. if n < 3 then ClientDo online n url hs else Inl (External ''connection reset''))\<rparr>"

definition both_transcripts :: Options where
  "both_transcripts =
     \<lparr>Duration = False, Transcript = True, TranscriptWithTimestamps = True, Comments = False,
      Lang = ''en'', Metadata = False\<rparr>"


text \<open>A platform whose API knows the video but refuses its content details.\<close>

definition a_video :: video where
  "a_video =
     \<lparr>video_Id = ''abc'', video_Title = ''A talk'', video_Description = ''Slides and demo'',
      video_PublishedAt = ''2024-05-01T10:00:00Z'', video_ChannelId = ''UC1'',
      video_ChannelTitle = ''Talks'', video_CategoryId = ''28'', video_Tags = [''go''],
      video_ViewCount = 1200, video_LikeCount = 34, video_Duration = ''PT1H2M3S''\<rparr>"

definition no_details :: platform where
  "no_details = offline
     \<lparr>VideosList := (\<lambda>n parts videoId.
        if parts = [''contentDetails''] then Inl (External ''quota exceeded'') else Inr [a_video])\<rparr>"

definition metadata_and_duration :: Options where
  "metadata_and_duration =
     \<lparr>Duration = True, Transcript = False, TranscriptWithTimestamps = False, Comments = False,
      Lang = ''en'', Metadata = True\<rparr>"

definition a_metadata :: VideoMetadata where
  "a_metadata =
     \<lparr>meta_Id = ''abc'', meta_Title = ''A talk'', meta_Description = ''Slides and demo'',
      meta_PublishedAt = ''2024-05-01T10:00:00Z'', meta_ChannelId = ''UC1'',
      meta_ChannelTitle = ''Talks'', meta_CategoryId = ''28'', meta_Tags = [''go''],
      meta_ViewCount = 1200, meta_LikeCount = 34\<rparr>"

section \<open>Properties of the matcher and of decimal numbers\<close>

lemma star_skips:
  assumes "list_all (member_c cs) ds" and "\<And>x xs. member_c cs x \<Longrightarrow> f (x # xs) = []"
  shows "concat (map f (star cs (ds @ rest))) = concat (map f (star cs rest))"
  using assms(1) by (induction ds) (simp_all add: assms(2))

lemma star_stops: "\<not> member_c cs y \<Longrightarrow> star cs (y # r) = [y # r]"
  by simp

lemma run_Group_Plus_Seq:
  assumes ds: "list_all (member_c cs) ds" "ds \<noteq> []" and y: "\<not> member_c cs y"
    and rej: "\<And>x xs c'. member_c cs x \<Longrightarrow> run r2 (x # xs, c') = []"
  shows "run (Seq (Group k (Plus cs)) r2) (ds @ y # r, c) = run r2 (y # r, c(k \<mapsto> ds))"
proof -
  obtain d ds' where dd: "ds = d # ds'" using ds(2) by (cases ds) auto
  have d: "member_c cs d" and ds': "list_all (member_c cs) ds'" using ds(1) dd by auto
  let ?s = "ds @ y # r"
  let ?f = "\<lambda>s'. run r2 (s', c(k \<mapsto> take (length ?s - length s') ?s))"
  have "run (Seq (Group k (Plus cs)) r2) (?s, c) = concat (map ?f (star cs (ds' @ y # r)))"
    by (simp add: dd d Plus_def comp_def)
  also have "\<dots> = concat (map ?f (star cs (y # r)))"
    by (rule star_skips [OF ds']) (simp add: rej)
  also have "\<dots> = run r2 (y # r, c(k \<mapsto> ds))"
    using y by simp
  finally show ?thesis .
qed

lemma run_Group_Plus_Seq_end:
  assumes ds: "list_all (member_c cs) ds" "ds \<noteq> []"
    and rej: "\<And>x xs c'. member_c cs x \<Longrightarrow> run r2 (x # xs, c') = []"
  shows "run (Seq (Group k (Plus cs)) r2) (ds, c) = run r2 ([], c(k \<mapsto> ds))"
proof -
  obtain d ds' where dd: "ds = d # ds'" using ds(2) by (cases ds) auto
  have d: "member_c cs d" and ds': "list_all (member_c cs) ds'" using ds(1) dd by auto
  let ?f = "\<lambda>s'. run r2 (s', c(k \<mapsto> take (length ds - length s') ds))"
  have "run (Seq (Group k (Plus cs)) r2) (ds, c) = concat (map ?f (star cs (ds' @ [])))"
    by (simp add: dd d Plus_def comp_def)
  also have "\<dots> = concat (map ?f (star cs []))"
    by (rule star_skips [OF ds']) (simp add: rej)
  also have "\<dots> = run r2 ([], c(k \<mapsto> ds))"
    by simp
  finally show ?thesis .
qed

lemma run_Group_Plus_Seq_no:
  "\<not> member_c cs y \<Longrightarrow> run (Seq (Group k (Plus cs)) r2) (y # r, c) = []"
  "run (Seq (Group k (Plus cs)) r2) ([], c) = []"
  by (simp_all add: Plus_def)

lemma digit_char_code: "d < 10 \<Longrightarrow> of_char (digit_char d) = 48 + d"
proof -
  assume "d < 10"
  then have "d \<in> {0, 1, 2, 3, 4, 5, 6, 7, 8, 9}" by auto
  then show ?thesis by (auto simp: digit_char_def)
qed

lemma digit_char_is_digit: "d < 10 \<Longrightarrow> member_c digit (digit_char d)"
  by (simp add: digit_def in_range_def digit_char_code)

lemma digits_all_digit: "list_all (member_c digit) (digits n)"
proof (induction n rule: digits.induct)
  case (1 n)
  show ?case
  proof (cases "n < 10")
    case True
    then show ?thesis by (simp add: digits.simps [of n] digit_char_is_digit)
  next
    case False
    then show ?thesis using 1 by (simp add: digits.simps [of n] digit_char_is_digit)
  qed
qed

lemma digits_not_Nil: "digits n \<noteq> []"
  by (simp add: digits.simps [of n])

lemma decimal_snoc: "decimal (xs @ [c]) = 10 * decimal xs + (of_char c - 48)"
  by (simp add: decimal_def)

lemma decimal_digits: "decimal (digits n) = n"
proof (induction n rule: digits.induct)
  case (1 n)
  show ?case
  proof (cases "n < 10")
    case True
    then show ?thesis by (simp add: digits.simps [of n] decimal_def digit_char_code)
  next
    case False
    then have "decimal (digits n) = 10 * decimal (digits (n div 10)) + n mod 10"
      by (simp add: digits.simps [of n] decimal_snoc digit_char_code)
    then show ?thesis using 1 False by simp
  qed
qed

lemma member_digit_is_digit: "member_c digit c = is_digit c"
  by (simp add: digit_def is_digit_def)

lemma Atoi_digits: "n < 2 ^ 63 \<Longrightarrow> Atoi (digits n) = (int n, None)"
proof -
  assume n: "n < 2 ^ 63"
  have ne: "digits n \<noteq> []" by (rule digits_not_Nil)
  have all: "list_all is_digit (digits n)"
    using digits_all_digit [of n] by (simp add: member_digit_is_digit [abs_def])
  then have "is_digit (hd (digits n))" using ne by (cases "digits n") auto
  then have hd: "hd (digits n) \<noteq> CHR ''-''" "hd (digits n) \<noteq> CHR ''+''"
    by (auto simp: is_digit_def in_range_def)
  have "int n < 2 ^ 63" using n by (metis of_nat_less_iff of_nat_numeral of_nat_power)
  then show ?thesis
    using ne all hd by (simp add: Atoi_def Let_def decimal_digits)
qed

lemma Atoi_empty: "fst (Atoi []) = 0"
  by (simp add: Atoi_def)


section \<open>Timestamps are truncated\<close>

text \<open>Two decimal digits, the first a zero below ten.\<close>

definition two_digits :: "nat \<Rightarrow> string" where
  "two_digits n = [digit_char (n div 10), digit_char (n mod 10)]"

lemma digits_lt_10: "n < 10 \<Longrightarrow> digits n = [digit_char n]"
  by (simp add: digits.simps)

lemma digits_lt_100:
  "10 \<le> n \<Longrightarrow> n < 100 \<Longrightarrow> digits n = [digit_char (n div 10), digit_char (n mod 10)]"
  by (subst digits.simps) (simp add: digits_lt_10)

lemma digit_char_0: "digit_char 0 = CHR ''0''"
  by (simp add: digit_char_def)

lemma Sprintf02d_two_digits: "n < 100 \<Longrightarrow> Sprintf02d (int n) = two_digits n"
  by (cases "n < 10")
     (simp_all add: Sprintf02d_def two_digits_def digits_lt_10 digits_lt_100 digit_char_0)

lemma int_of_float64_nonneg:
  "0 \<le> q \<Longrightarrow> q < 2 ^ 63 \<Longrightarrow> int_of_float64 (Finite q) = \<lfloor>q\<rfloor>"
  by (simp add: int_of_float64_def Let_def floor_less_iff)

lemma sdiv_nonneg: "0 \<le> (a::int) \<Longrightarrow> 0 < b \<Longrightarrow> a sdiv b = a div b"
  by (simp add: signed_divide_int_def sgn_if)

lemma smod_nonneg: "0 \<le> (a::int) \<Longrightarrow> 0 < b \<Longrightarrow> a smod b = a mod b"
  by (simp add: signed_modulo_int_def sgn_if)

lemma formatTimestamp_nonneg:
  assumes "0 \<le> q" "q < 360000"
  shows "formatTimestamp (Finite q) =
     two_digits (nat \<lfloor>q\<rfloor> div 3600) @ '':'' @ two_digits (nat \<lfloor>q\<rfloor> mod 3600 div 60) @ '':'' @
     two_digits (nat \<lfloor>q\<rfloor> mod 60)"
proof -
  define n where "n = nat \<lfloor>q\<rfloor>"
  have fl: "\<lfloor>q\<rfloor> = int n" using assms by (simp add: n_def)
  have "\<lfloor>q\<rfloor> < 360000" using assms by (simp add: floor_less_iff)
  then have n: "n < 360000" using fl by simp
  have q63: "q < 2 ^ 63" using assms by simp
  have i: "int_of_float64 (Finite q) = int n"
    using int_of_float64_nonneg [OF assms(1) q63] fl by simp
  have h: "int n sdiv 3600 = int (n div 3600)"
    by (simp add: sdiv_nonneg zdiv_int)
  have m: "(int n smod 3600) sdiv 60 = int (n mod 3600 div 60)"
    by (simp add: sdiv_nonneg smod_nonneg zdiv_int zmod_int)
  have s: "int n smod 60 = int (n mod 60)"
    by (simp add: smod_nonneg zmod_int)
  have b1: "n div 3600 < 100" using n by simp
  have b2: "n mod 3600 div 60 < 100"
  proof -
    have "n mod 3600 < 3600" by simp
    then show ?thesis by (simp add: less_mult_imp_div_less)
  qed
  have b3: "n mod 60 < 100"
  proof -
    have "n mod 60 < 60" by simp
    then show ?thesis by linarith
  qed
  have "formatTimestamp (Finite q) =
     two_digits (n div 3600) @ '':'' @ two_digits (n mod 3600 div 60) @ '':'' @ two_digits (n mod 60)"
    unfolding formatTimestamp_def Let_def i h m s
    by (simp only: Sprintf02d_two_digits [OF b1] Sprintf02d_two_digits [OF b2]
        Sprintf02d_two_digits [OF b3])
  then show ?thesis by (simp only: n_def)
qed

lemma formatTimestamp_examples:
  "formatTimestamp (Finite 0) = ''00:00:00''"
  "formatTimestamp (Finite 3661) = ''01:01:01''"
  "formatTimestamp (Finite (619 / 10)) = ''00:01:01''"
  by code_simp+

text \<open>
  C7. \<^verbatim>\<open>formatTimestamp\<close> writes a number of seconds as zero-padded \<open>HH:MM:SS\<close> and drops the
  fraction instead of rounding: 0 gives \<open>00:00:00\<close>, 3661 gives \<open>01:01:01\<close>, 61.9 gives
  \<open>00:01:01\<close>; for every value from 0 up to (not including) a hundred hours the three
  fields are the two-digit hours, minutes and seconds of the integer part.
\<close>

theorem formatTimestamp_truncates:
  "formatTimestamp (Finite 0) = ''00:00:00'' \<and>
   formatTimestamp (Finite 3661) = ''01:01:01'' \<and>
   formatTimestamp (Finite (619 / 10)) = ''00:01:01'' \<and>
   (\<forall>q. 0 \<le> q \<and> q < 360000 \<longrightarrow>
      formatTimestamp (Finite q) =
        two_digits (nat \<lfloor>q\<rfloor> div 3600) @ '':'' @ two_digits (nat \<lfloor>q\<rfloor> mod 3600 div 60) @ '':'' @
        two_digits (nat \<lfloor>q\<rfloor> mod 60))"
  using formatTimestamp_examples formatTimestamp_nonneg by blast

theorem formatTimestamp_truncates_witness:
  "formatTimestamp (Finite (7319 / 2)) = ''01:00:59''"
proof -
  have a: "(0::rat) \<le> 7319 / 2 \<and> (7319 / 2 :: rat) < 360000" by simp
  have b0: "\<lfloor>7319 / 2 :: rat\<rfloor> = 3659" by (simp add: floor_eq_iff)
  have b: "nat \<lfloor>7319 / 2 :: rat\<rfloor> = 3659" unfolding b0 by simp
  from formatTimestamp_truncates
  have "\<forall>q. 0 \<le> q \<and> q < 360000 \<longrightarrow>
      formatTimestamp (Finite q) =
        two_digits (nat \<lfloor>q\<rfloor> div 3600) @ '':'' @ two_digits (nat \<lfloor>q\<rfloor> mod 3600 div 60) @ '':'' @
        two_digits (nat \<lfloor>q\<rfloor> mod 60)" by blast
  then have "formatTimestamp (Finite (7319 / 2)) =
        two_digits (nat \<lfloor>7319 / 2 :: rat\<rfloor> div 3600) @ '':'' @
        two_digits (nat \<lfloor>7319 / 2 :: rat\<rfloor> mod 3600 div 60) @ '':'' @
        two_digits (nat \<lfloor>7319 / 2 :: rat\<rfloor> mod 60)" using a by blast
  then show ?thesis unfolding b by (simp add: two_digits_def digit_char_def)
qed

section \<open>The duration operation reads the first item unchecked\<close>

text \<open>
  C10. With the API client built and an answer of the API in hand, \<^verbatim>\<open>GrabDuration\<close> returns
  exactly when the answer has at least one item; on an answer without items it panics with
  an index out of range instead of returning an error, where \<^verbatim>\<open>GrabMetadata\<close> returns the
  error that no video was found.
\<close>

theorem GrabDuration_first_item_unchecked:
  assumes "service yt"
  shows "(\<forall>items. VideosList e (length (requests yt)) [''contentDetails''] videoId = Inr items \<longrightarrow>
           ((\<exists>r. fst (GrabDuration e videoId yt) = Return r) \<longleftrightarrow> items \<noteq> []) \<and>
           (items = [] \<longrightarrow> fst (GrabDuration e videoId yt) = Panic IndexOutOfRange)) \<and>
         (VideosList e (length (requests yt)) [''snippet'', ''statistics''] videoId = Inr [] \<longrightarrow>
           fst (GrabMetadata e videoId yt) = (None, Some (NotFound videoId)))"
  using assms
  by (auto simp: GrabDuration_def GrabMetadata_def initService_def Let_def split: list.splits)

theorem GrabDuration_first_item_unchecked_witness:
  "fst (GrabDuration offline ''abc'' ready) = Panic IndexOutOfRange \<and>
   fst (GrabMetadata offline ''abc'' ready) = (None, Some (NotFound ''abc''))"
  using GrabDuration_first_item_unchecked [of ready offline "''abc''"]
  by (simp add: ready_def offline_def)


section \<open>The aggregate stops at the first failure\<close>

lemma GrabMetadata_error_None: "GrabMetadata e v yt = ((m, Some err), yt') \<Longrightarrow> m = None"
  by (auto simp: GrabMetadata_def Let_def split: prod.splits option.splits sum.splits if_splits)

lemma GrabMetadata_ok_Some: "GrabMetadata e v yt = ((m, None), yt') \<Longrightarrow> m \<noteq> None"
  by (auto simp: GrabMetadata_def Let_def split: prod.splits option.splits sum.splits if_splits)

lemma parse_duration_error_zero: "parse_duration s = (d, Some err) \<Longrightarrow> d = 0"
  by (auto simp: parse_duration_def Let_def split: if_splits)

lemma GrabDuration_error_zero: "GrabDuration e v yt = (Return (d, Some err), yt') \<Longrightarrow> d = 0"
  by (auto simp: GrabDuration_def Let_def dest: parse_duration_error_zero
      split: sum.splits list.splits if_splits)

lemma GrabDuration_requests:
  "GrabDuration e v yt = (Return r, yt') \<Longrightarrow>
   requests yt' = requests yt @ [VideosListCall [''contentDetails''] v]"
  by (auto simp: GrabDuration_def Let_def record_request_def split: sum.splits list.splits if_splits)

lemma GrabComments_error_Nil: "GrabComments e v yt = ((cs, Some err), yt') \<Longrightarrow> cs = []"
  by (auto simp: GrabComments_def Let_def split: prod.splits option.splits sum.splits if_splits)

lemma GrabTranscript_error_empty: "GrabTranscript e v l yt = ((t, Some err), yt') \<Longrightarrow> t = []"
  by (auto simp: GrabTranscript_def split: prod.splits option.splits)

lemma GrabTranscriptWithTimestamps_error_empty:
  "GrabTranscriptWithTimestamps e v l yt = ((t, Some err), yt') \<Longrightarrow> t = []"
  by (auto simp: GrabTranscriptWithTimestamps_def split: prod.splits option.splits)

lemma Grab_resolved:
  "GetVideoOrPlaylistId e url yt = ((v, p, None), yt0) \<Longrightarrow> v \<noteq> [] \<Longrightarrow>
   Grab e url options yt = grab_metadata e v options VideoInfo_zero yt0"
  by (simp add: Grab_def)

lemma fail_at_metadata:
  "Metadata options \<Longrightarrow> GrabMetadata e v yt0 = ((m, Some err), yt1) \<Longrightarrow>
   grab_metadata e v options ret yt0 = (Return (Some (ret\<lparr>info_Metadata := None\<rparr>), Some (MetadataError err)), yt1)"
  using GrabMetadata_error_None [of e v yt0 m err yt1] by (simp add: grab_metadata_def)

lemma pass_metadata:
  "metadata_passes e v options yt0 m yt1 \<Longrightarrow>
   grab_metadata e v options VideoInfo_zero yt0 = grab_duration e v options (VideoInfo_zero\<lparr>info_Metadata := m\<rparr>) yt1"
  by (auto simp: metadata_passes_def grab_metadata_def VideoInfo_zero_def split: if_splits)

lemma fail_at_duration:
  "Duration options \<Longrightarrow> GrabDuration e v yt1 = (Return (d, Some err), yt2) \<Longrightarrow>
   grab_duration e v options ret yt1 = (Return (Some (ret\<lparr>info_Duration := 0\<rparr>), Some (DurationError err)), yt2)"
  using GrabDuration_error_zero [of e v yt1 d err yt2] by (simp add: grab_duration_def)

lemma pass_duration:
  "duration_passes e v options yt1 d yt2 \<Longrightarrow>
   grab_duration e v options (VideoInfo_zero\<lparr>info_Metadata := m\<rparr>) yt1 =
   grab_comments e v options (VideoInfo_zero\<lparr>info_Metadata := m, info_Duration := d\<rparr>) yt2"
  by (auto simp: duration_passes_def grab_duration_def VideoInfo_zero_def split: if_splits)

lemma fail_at_comments:
  "Comments options \<Longrightarrow> GrabComments e v yt2 = ((cs, Some err), yt3) \<Longrightarrow>
   grab_comments e v options ret yt2 = (Return (Some (ret\<lparr>info_Comments := []\<rparr>), Some (CommentsError err)), yt3)"
  using GrabComments_error_Nil [of e v yt2 cs err yt3] by (simp add: grab_comments_def)

lemma pass_comments:
  "comments_pass e v options yt2 cs yt3 \<Longrightarrow>
   grab_comments e v options (VideoInfo_zero\<lparr>info_Metadata := m, info_Duration := d\<rparr>) yt2 =
   grab_transcript e v options (VideoInfo_zero\<lparr>info_Metadata := m, info_Duration := d, info_Comments := cs\<rparr>) yt3"
  by (auto simp: comments_pass_def grab_comments_def VideoInfo_zero_def split: if_splits)

lemma fail_at_transcript:
  "Transcript options \<Longrightarrow> GrabTranscript e v ''en'' yt3 = ((t, Some err), yt4) \<Longrightarrow>
   grab_transcript e v options ret yt3 = (Return (Some (ret\<lparr>info_Transcript := []\<rparr>), Some err), yt4)"
  using GrabTranscript_error_empty [of e v "''en''" yt3 t err yt4] by (simp add: grab_transcript_def)

lemma pass_transcript:
  "transcript_passes e v options yt3 t yt4 \<Longrightarrow>
   grab_transcript e v options (VideoInfo_zero\<lparr>info_Metadata := m, info_Duration := d, info_Comments := cs\<rparr>) yt3 =
   grab_timestamps e v options
     (VideoInfo_zero\<lparr>info_Metadata := m, info_Duration := d, info_Comments := cs, info_Transcript := t\<rparr>) yt4"
  by (auto simp: transcript_passes_def grab_transcript_def VideoInfo_zero_def split: if_splits)

lemma fail_at_timestamps:
  "TranscriptWithTimestamps options \<Longrightarrow>
   GrabTranscriptWithTimestamps e v ''en'' yt4 = ((t, Some err), yt5) \<Longrightarrow>
   grab_timestamps e v options ret yt4 = (Return (Some (ret\<lparr>info_Transcript := []\<rparr>), Some err), yt5)"
  using GrabTranscriptWithTimestamps_error_empty [of e v "''en''" yt4 t err yt5]
  by (simp add: grab_timestamps_def)

text \<open>
  C1 (as amended). Once the URL has resolved to a video, \<^verbatim>\<open>Grab\<close> takes the fields in the
  order Metadata, Duration, Comments, Transcript, TranscriptWithTimestamps. When the
  operation of a requested field returns an error and every field before it has passed,
  \<^verbatim>\<open>Grab\<close> returns at once: Metadata, Duration and Comments hold what the earlier
  operations returned, the failing field is zero, the error is the field's (wrapped for
  the first three fields), and the engine is in the state the failing operation left, so
  that no later operation has made a request. The two transcripts share one slot of the
  result: when the timestamped transcript fails the slot is empty, also when the plain
  transcript had been fetched. In particular, when Metadata has passed and Duration fails,
  the result has the metadata (present when it was asked for), a zero duration and the
  duration error, and the last request made is the one for the content details.
\<close>

theorem Grab_fail_fast:
  assumes "GetVideoOrPlaylistId e url yt = ((v, p, None), yt0)" and "v \<noteq> []"
  shows
   "(Metadata options \<and> GrabMetadata e v yt0 = ((m', Some err), yt1) \<longrightarrow>
       Grab e url options yt =
         (Return (Some \<lparr>info_Transcript = [], info_Duration = 0, info_Comments = [], info_Metadata = None\<rparr>,
                  Some (MetadataError err)), yt1)) \<and>
    (metadata_passes e v options yt0 m yt1 \<and>
     Duration options \<and> GrabDuration e v yt1 = (Return (d', Some err), yt2) \<longrightarrow>
       Grab e url options yt =
         (Return (Some \<lparr>info_Transcript = [], info_Duration = 0, info_Comments = [], info_Metadata = m\<rparr>,
                  Some (DurationError err)), yt2) \<and>
       requests yt2 = requests yt1 @ [VideosListCall [''contentDetails''] v] \<and>
       (Metadata options \<longrightarrow> m \<noteq> None)) \<and>
    (metadata_passes e v options yt0 m yt1 \<and> duration_passes e v options yt1 d yt2 \<and>
     Comments options \<and> GrabComments e v yt2 = ((cs', Some err), yt3) \<longrightarrow>
       Grab e url options yt =
         (Return (Some \<lparr>info_Transcript = [], info_Duration = d, info_Comments = [], info_Metadata = m\<rparr>,
                  Some (CommentsError err)), yt3)) \<and>
    (metadata_passes e v options yt0 m yt1 \<and> duration_passes e v options yt1 d yt2 \<and>
     comments_pass e v options yt2 cs yt3 \<and>
     Transcript options \<and> GrabTranscript e v ''en'' yt3 = ((t', Some err), yt4) \<longrightarrow>
       Grab e url options yt =
         (Return (Some \<lparr>info_Transcript = [], info_Duration = d, info_Comments = cs, info_Metadata = m\<rparr>,
                  Some err), yt4)) \<and>
    (metadata_passes e v options yt0 m yt1 \<and> duration_passes e v options yt1 d yt2 \<and>
     comments_pass e v options yt2 cs yt3 \<and> transcript_passes e v options yt3 t yt4 \<and>
     TranscriptWithTimestamps options \<and>
     GrabTranscriptWithTimestamps e v ''en'' yt4 = ((t', Some err), yt5) \<longrightarrow>
       Grab e url options yt =
         (Return (Some \<lparr>info_Transcript = [], info_Duration = d, info_Comments = cs, info_Metadata = m\<rparr>,
                  Some err), yt5))"
proof -
  note start = Grab_resolved [OF assms]
  have c1: "Metadata options \<and> GrabMetadata e v yt0 = ((m', Some err), yt1) \<longrightarrow>
       Grab e url options yt =
         (Return (Some \<lparr>info_Transcript = [], info_Duration = 0, info_Comments = [], info_Metadata = None\<rparr>,
                  Some (MetadataError err)), yt1)"
  proof (intro impI)
    assume "Metadata options \<and> GrabMetadata e v yt0 = ((m', Some err), yt1)"
    then have mopt: "Metadata options" and gm: "GrabMetadata e v yt0 = ((m', Some err), yt1)" by blast+
    show "Grab e url options yt =
         (Return (Some \<lparr>info_Transcript = [], info_Duration = 0, info_Comments = [], info_Metadata = None\<rparr>,
                  Some (MetadataError err)), yt1)"
      unfolding start fail_at_metadata [OF mopt gm]
      by (simp add: VideoInfo_zero_def)
  qed
  have c2: "metadata_passes e v options yt0 m yt1 \<and>
     Duration options \<and> GrabDuration e v yt1 = (Return (d', Some err), yt2) \<longrightarrow>
       Grab e url options yt =
         (Return (Some \<lparr>info_Transcript = [], info_Duration = 0, info_Comments = [], info_Metadata = m\<rparr>,
                  Some (DurationError err)), yt2) \<and>
       requests yt2 = requests yt1 @ [VideosListCall [''contentDetails''] v] \<and>
       (Metadata options \<longrightarrow> m \<noteq> None)"
  proof (intro impI)
    assume "metadata_passes e v options yt0 m yt1 \<and>
      Duration options \<and> GrabDuration e v yt1 = (Return (d', Some err), yt2)"
    then have mp: "metadata_passes e v options yt0 m yt1" and dopt: "Duration options"
      and gd: "GrabDuration e v yt1 = (Return (d', Some err), yt2)" by blast+
    have "Grab e url options yt =
         (Return (Some \<lparr>info_Transcript = [], info_Duration = 0, info_Comments = [], info_Metadata = m\<rparr>,
                  Some (DurationError err)), yt2)"
      unfolding start pass_metadata [OF mp] fail_at_duration [OF dopt gd]
      by (simp add: VideoInfo_zero_def)
    moreover have "requests yt2 = requests yt1 @ [VideosListCall [''contentDetails''] v]"
      by (rule GrabDuration_requests [OF gd])
    moreover have "Metadata options \<longrightarrow> m \<noteq> None"
      using mp by (auto simp: metadata_passes_def dest: GrabMetadata_ok_Some)
    ultimately show "Grab e url options yt =
         (Return (Some \<lparr>info_Transcript = [], info_Duration = 0, info_Comments = [], info_Metadata = m\<rparr>,
                  Some (DurationError err)), yt2) \<and>
       requests yt2 = requests yt1 @ [VideosListCall [''contentDetails''] v] \<and>
       (Metadata options \<longrightarrow> m \<noteq> None)" by blast
  qed
  have c3: "metadata_passes e v options yt0 m yt1 \<and> duration_passes e v options yt1 d yt2 \<and>
     Comments options \<and> GrabComments e v yt2 = ((cs', Some err), yt3) \<longrightarrow>
       Grab e url options yt =
         (Return (Some \<lparr>info_Transcript = [], info_Duration = d, info_Comments = [], info_Metadata = m\<rparr>,
                  Some (CommentsError err)), yt3)"
  proof (intro impI)
    assume "metadata_passes e v options yt0 m yt1 \<and> duration_passes e v options yt1 d yt2 \<and>
      Comments options \<and> GrabComments e v yt2 = ((cs', Some err), yt3)"
    then have mp: "metadata_passes e v options yt0 m yt1" and dp: "duration_passes e v options yt1 d yt2"
      and copt: "Comments options" and gc: "GrabComments e v yt2 = ((cs', Some err), yt3)" by blast+
    show "Grab e url options yt =
         (Return (Some \<lparr>info_Transcript = [], info_Duration = d, info_Comments = [], info_Metadata = m\<rparr>,
                  Some (CommentsError err)), yt3)"
      unfolding start pass_metadata [OF mp] pass_duration [OF dp] fail_at_comments [OF copt gc]
      by (simp add: VideoInfo_zero_def)
  qed
  have c4: "metadata_passes e v options yt0 m yt1 \<and> duration_passes e v options yt1 d yt2 \<and>
     comments_pass e v options yt2 cs yt3 \<and>
     Transcript options \<and> GrabTranscript e v ''en'' yt3 = ((t', Some err), yt4) \<longrightarrow>
       Grab e url options yt =
         (Return (Some \<lparr>info_Transcript = [], info_Duration = d, info_Comments = cs, info_Metadata = m\<rparr>,
                  Some err), yt4)"
  proof (intro impI)
    assume "metadata_passes e v options yt0 m yt1 \<and> duration_passes e v options yt1 d yt2 \<and>
      comments_pass e v options yt2 cs yt3 \<and>
      Transcript options \<and> GrabTranscript e v ''en'' yt3 = ((t', Some err), yt4)"
    then have mp: "metadata_passes e v options yt0 m yt1" and dp: "duration_passes e v options yt1 d yt2"
      and cp: "comments_pass e v options yt2 cs yt3"
      and topt: "Transcript options" and gt: "GrabTranscript e v ''en'' yt3 = ((t', Some err), yt4)"
      by blast+
    show "Grab e url options yt =
         (Return (Some \<lparr>info_Transcript = [], info_Duration = d, info_Comments = cs, info_Metadata = m\<rparr>,
                  Some err), yt4)"
      unfolding start pass_metadata [OF mp] pass_duration [OF dp] pass_comments [OF cp] fail_at_transcript [OF topt gt]
      by (simp add: VideoInfo_zero_def)
  qed
  have c5: "metadata_passes e v options yt0 m yt1 \<and> duration_passes e v options yt1 d yt2 \<and>
     comments_pass e v options yt2 cs yt3 \<and> transcript_passes e v options yt3 t yt4 \<and>
     TranscriptWithTimestamps options \<and>
     GrabTranscriptWithTimestamps e v ''en'' yt4 = ((t', Some err), yt5) \<longrightarrow>
       Grab e url options yt =
         (Return (Some \<lparr>info_Transcript = [], info_Duration = d, info_Comments = cs, info_Metadata = m\<rparr>,
                  Some err), yt5)"
  proof (intro impI)
    assume "metadata_passes e v options yt0 m yt1 \<and> duration_passes e v options yt1 d yt2 \<and>
      comments_pass e v options yt2 cs yt3 \<and> transcript_passes e v options yt3 t yt4 \<and>
      TranscriptWithTimestamps options \<and>
      GrabTranscriptWithTimestamps e v ''en'' yt4 = ((t', Some err), yt5)"
    then have mp: "metadata_passes e v options yt0 m yt1" and dp: "duration_passes e v options yt1 d yt2"
      and cp: "comments_pass e v options yt2 cs yt3" and tp: "transcript_passes e v options yt3 t yt4"
      and wopt: "TranscriptWithTimestamps options"
      and gw: "GrabTranscriptWithTimestamps e v ''en'' yt4 = ((t', Some err), yt5)"
      by blast+
    show "Grab e url options yt =
         (Return (Some \<lparr>info_Transcript = [], info_Duration = d, info_Comments = cs, info_Metadata = m\<rparr>,
                  Some err), yt5)"
      unfolding start pass_metadata [OF mp] pass_duration [OF dp] pass_comments [OF cp] pass_transcript [OF tp] fail_at_timestamps [OF wopt gw]
      by (simp add: VideoInfo_zero_def)
  qed
  from c1 c2 c3 c4 c5 show ?thesis by blast
qed

theorem Grab_fail_fast_witness:
  "Grab no_details ''https://youtu.be/abc'' metadata_and_duration fresh =
     (Return (Some \<lparr>info_Transcript = [], info_Duration = 0, info_Comments = [],
                     info_Metadata = Some a_metadata\<rparr>,
              Some (DurationError (VideoDetailsError (External ''quota exceeded'')))),
      \<lparr>service = True,
         requests = [NewServiceCall, VideosListCall [''snippet'', ''statistics''] ''abc'',
                     VideosListCall [''contentDetails''] ''abc'']\<rparr>)"
proof -
  let ?yt0 = "\<lparr>service = True, requests = [NewServiceCall]\<rparr>"
  let ?yt1 = "\<lparr>service = True,
    requests = [NewServiceCall, VideosListCall [''snippet'', ''statistics''] ''abc'']\<rparr>"
  let ?yt2 = "\<lparr>service = True,
    requests = [NewServiceCall, VideosListCall [''snippet'', ''statistics''] ''abc'',
                VideosListCall [''contentDetails''] ''abc'']\<rparr>"
  have r: "GetVideoOrPlaylistId no_details ''https://youtu.be/abc'' fresh = ((''abc'', [], None), ?yt0)"
    by code_simp
  have v: "''abc'' \<noteq> []" by simp
  have mp: "metadata_passes no_details ''abc'' metadata_and_duration ?yt0 (Some a_metadata) ?yt1"
    by code_simp
  have dopt: "Duration metadata_and_duration" by code_simp
  have gd: "GrabDuration no_details ''abc'' ?yt1 =
    (Return (0, Some (VideoDetailsError (External ''quota exceeded''))), ?yt2)"
    by code_simp
  from Grab_fail_fast [OF r v, where options = metadata_and_duration and m = "Some a_metadata"
      and ?yt1.0 = ?yt1 and d' = 0 and err = "VideoDetailsError (External ''quota exceeded'')"
      and ?yt2.0 = ?yt2] mp dopt gd
  show ?thesis by blast
qed

text \<open>
  The claim as stated fails where the plain transcript is fetched and the timestamped one
  then fails: the transcript fetched before is not in the result.
\<close>

theorem Grab_loses_transcript_counterexample:
  "fst (GrabTranscript flaky ''abc'' ''en'' \<lparr>service = True, requests = [NewServiceCall]\<rparr>) =
     (''it'' @ [CHR 0x27] @ ''s fine '', None) \<and>
   fst (Grab flaky ''https://youtu.be/abc'' both_transcripts fresh) =
     Return (Some \<lparr>info_Transcript = [], info_Duration = 0, info_Comments = [], info_Metadata = None\<rparr>,
             Some (TranscriptUnavailable (FetchPageError (External ''connection reset''))))"
  by code_simp

section \<open>The aggregate asks for English transcripts\<close>

lemma grab_timestamps_Lang:
  "grab_timestamps e v (options\<lparr>Lang := l\<rparr>) ret yt = grab_timestamps e v options ret yt"
  by (simp add: grab_timestamps_def)

lemma grab_transcript_Lang:
  "grab_transcript e v (options\<lparr>Lang := l\<rparr>) ret yt = grab_transcript e v options ret yt"
  by (simp add: grab_transcript_def grab_timestamps_Lang split: prod.splits option.splits)

lemma grab_comments_Lang:
  "grab_comments e v (options\<lparr>Lang := l\<rparr>) ret yt = grab_comments e v options ret yt"
  by (simp add: grab_comments_def grab_transcript_Lang split: prod.splits option.splits)

lemma grab_duration_Lang:
  "grab_duration e v (options\<lparr>Lang := l\<rparr>) ret yt = grab_duration e v options ret yt"
  by (simp add: grab_duration_def grab_comments_Lang split: prod.splits outcome.splits option.splits)

lemma grab_metadata_Lang:
  "grab_metadata e v (options\<lparr>Lang := l\<rparr>) ret yt = grab_metadata e v options ret yt"
  by (simp add: grab_metadata_def grab_duration_Lang split: prod.splits option.splits)

lemma Grab_Lang: "Grab e url (options\<lparr>Lang := l\<rparr>) yt = Grab e url options yt"
  by (simp add: Grab_def grab_metadata_Lang split: prod.splits option.splits)

lemma Grab_only_transcript:
  assumes "GetVideoOrPlaylistId e url yt = ((v, p, None), yt0)" and "v \<noteq> []"
  shows "Grab e url \<lparr>Duration = False, Transcript = True, TranscriptWithTimestamps = False,
                     Comments = False, Lang = l, Metadata = False\<rparr> yt =
         (case GrabTranscript e v ''en'' yt0 of
            ((t, err), yt1) \<Rightarrow> (Return (Some (VideoInfo_zero\<lparr>info_Transcript := t\<rparr>), err), yt1))"
  unfolding Grab_resolved [OF assms]
  by (simp add: grab_metadata_def grab_duration_def grab_comments_def grab_transcript_def
      grab_timestamps_def split: prod.splits option.splits)

lemma Grab_only_timestamps:
  assumes "GetVideoOrPlaylistId e url yt = ((v, p, None), yt0)" and "v \<noteq> []"
  shows "Grab e url \<lparr>Duration = False, Transcript = False, TranscriptWithTimestamps = True,
                     Comments = False, Lang = l, Metadata = False\<rparr> yt =
         (case GrabTranscriptWithTimestamps e v ''en'' yt0 of
            ((t, err), yt1) \<Rightarrow> (Return (Some (VideoInfo_zero\<lparr>info_Transcript := t\<rparr>), err), yt1))"
  unfolding Grab_resolved [OF assms]
  by (simp add: grab_metadata_def grab_duration_def grab_comments_def grab_transcript_def
      grab_timestamps_def split: prod.splits option.splits)

lemma direct_language_matters:
  "fst (GrabTranscript online ''abc'' ''es'' ready) = (''vale '', None) \<and>
   fst (GrabTranscript online ''abc'' ''en'' ready) = (''it'' @ [CHR 0x27] @ ''s fine '', None)"
  by code_simp

text \<open>
  C9. \<^verbatim>\<open>Grab\<close> does not read the \<open>Lang\<close> field of its options: changing it changes
  nothing. The plain and the timestamped transcript are fetched with the language \<open>en\<close>,
  whatever \<open>Lang\<close> is. The operation \<^verbatim>\<open>GrabTranscript\<close> itself does follow the language
  it is given: on the example platform Spanish and English give different transcripts.
\<close>

theorem Grab_language_fixed:
  assumes "GetVideoOrPlaylistId e url yt = ((v, p, None), yt0)" and "v \<noteq> []"
  shows "Grab e url (options\<lparr>Lang := l\<rparr>) yt = Grab e url options yt \<and>
         Grab e url \<lparr>Duration = False, Transcript = True, TranscriptWithTimestamps = False,
                     Comments = False, Lang = l, Metadata = False\<rparr> yt =
         (case GrabTranscript e v ''en'' yt0 of
            ((t, err), yt1) \<Rightarrow> (Return (Some (VideoInfo_zero\<lparr>info_Transcript := t\<rparr>), err), yt1)) \<and>
         Grab e url \<lparr>Duration = False, Transcript = False, TranscriptWithTimestamps = True,
                     Comments = False, Lang = l, Metadata = False\<rparr> yt =
         (case GrabTranscriptWithTimestamps e v ''en'' yt0 of
            ((t, err), yt1) \<Rightarrow> (Return (Some (VideoInfo_zero\<lparr>info_Transcript := t\<rparr>), err), yt1)) \<and>
         fst (GrabTranscript online ''abc'' ''es'' ready) \<noteq> fst (GrabTranscript online ''abc'' ''en'' ready)"
  using Grab_Lang Grab_only_transcript [OF assms] Grab_only_timestamps [OF assms]
    direct_language_matters by simp

theorem Grab_language_fixed_witness:
  "fst (Grab online ''https://youtu.be/abc''
          \<lparr>Duration = False, Transcript = True, TranscriptWithTimestamps = False,
           Comments = False, Lang = ''es'', Metadata = False\<rparr> fresh) =
     Return (Some \<lparr>info_Transcript = ''it'' @ [CHR 0x27] @ ''s fine '', info_Duration = 0,
                    info_Comments = [], info_Metadata = None\<rparr>, None)"
proof -
  let ?yt0 = "\<lparr>service = True, requests = [NewServiceCall]\<rparr>"
  have r: "GetVideoOrPlaylistId online ''https://youtu.be/abc'' fresh = ((''abc'', [], None), ?yt0)"
    by code_simp
  have v: "''abc'' \<noteq> []" by simp
  have t: "fst (GrabTranscript online ''abc'' ''en'' ?yt0) = (''it'' @ [CHR 0x27] @ ''s fine '', None)"
    by code_simp
  from Grab_language_fixed [OF r v, where l = "''es''"]
  have "Grab online ''https://youtu.be/abc''
          \<lparr>Duration = False, Transcript = True, TranscriptWithTimestamps = False,
           Comments = False, Lang = ''es'', Metadata = False\<rparr> fresh =
        (case GrabTranscript online ''abc'' ''en'' ?yt0 of
            ((t, err), yt1) \<Rightarrow> (Return (Some (VideoInfo_zero\<lparr>info_Transcript := t\<rparr>), err), yt1))"
    by blast
  then show ?thesis using t by (simp add: VideoInfo_zero_def split: prod.splits)
qed


section \<open>Durations in whole minutes\<close>

lemma in_set_run_Opt: "sc \<in> set (run (Opt r) sc)"
  by (simp add: Opt_def)

lemma run_duration_groups_not_Nil: "run duration_groups sc \<noteq> []"
proof -
  have "\<And>r1 r2 sc. run (Seq (Opt r1) r2) sc \<noteq> [] \<longleftrightarrow> (\<exists>x \<in> set (run (Opt r1) sc). run r2 x \<noteq> [])"
    by auto
  then show ?thesis
    unfolding duration_groups_def optional_group_def
    by (metis in_set_run_Opt empty_iff list.set(1))
qed

lemma in_range_single: "in_range c (x, x) \<longleftrightarrow> c = x"
  by (auto simp: in_range_def)

lemma run_durationPattern_Nil: "run durationPattern ([], c) = []"
  by (simp add: durationPattern_def ci_def)

lemma run_durationPattern_single: "run durationPattern ([a], c) = []"
  by (simp add: durationPattern_def ci_def)

lemma run_durationPattern_Cons:
  "run durationPattern (a # b # rest, c) =
     (if (a = CHR ''P'' \<or> a = CHR ''p'') \<and> (b = CHR ''T'' \<or> b = CHR ''t'')
      then run duration_groups (rest, c) else [])"
  by (simp add: durationPattern_def ci_def in_range_single)

lemma find_first_durationPattern_short:
  "find_first durationPattern [] = None" "find_first durationPattern [v] = None"
  by (simp_all add: find_first.simps [of _ "[]"] find_first.simps [of _ "[v]"]
      run_durationPattern_Nil run_durationPattern_single)

lemma find_first_durationPattern: "find_first durationPattern s = None \<longleftrightarrow> \<not> has_PT s"
proof (induction s rule: has_PT.induct)
  case (1 a b rest)
  show ?case
  proof (cases "(a = CHR ''P'' \<or> a = CHR ''p'') \<and> (b = CHR ''T'' \<or> b = CHR ''t'')")
    case True
    then obtain x xs where "run durationPattern (a # b # rest, Map.empty) = x # xs"
      using run_duration_groups_not_Nil [of "(rest, Map.empty)"]
      by (cases "run duration_groups (rest, Map.empty)") (auto simp: run_durationPattern_Cons)
    then show ?thesis using True by (cases x) (simp add: find_first.simps [of _ "a # b # rest"])
  next
    case False
    then have "run durationPattern (a # b # rest, Map.empty) = []"
      by (simp only: run_durationPattern_Cons if_False)
    then have "find_first durationPattern (a # b # rest) = find_first durationPattern (b # rest)"
      by (simp add: find_first.simps [of _ "a # b # rest"])
    then show ?thesis using 1 False by simp
  qed
qed (simp_all add: find_first_durationPattern_short)

lemma parse_duration_invalid_iff:
  "parse_duration s = (0, Some (InvalidDuration s)) \<longleftrightarrow> \<not> has_PT s"
  using find_first_durationPattern [of s]
  by (auto simp: parse_duration_def FindStringSubmatch_def Let_def split: option.splits prod.splits)

lemma parse_duration_valid: "has_PT s \<Longrightarrow> snd (parse_duration s) = None"
  using find_first_durationPattern [of s]
  by (auto simp: parse_duration_def FindStringSubmatch_def Let_def split: option.splits prod.splits)



lemma run_ci: "run (ci a b) (y # r, c) = (if y = a \<or> y = b then [(r, c)] else [])"
  by (simp add: ci_def in_range_single)

lemma digit_rejected_by_ci:
  assumes "\<not> member_c digit a" "\<not> member_c digit b" "member_c digit x"
  shows "run (ci a b) (x # xs, c) = []"
  using assms by (auto simp: run_ci)

lemma digit_rejected_by_seconds:
  assumes "member_c digit x"
  shows "run seconds_unit (x # xs, c) = []"
  using assms by (auto simp: seconds_unit_def ci_def ch_def in_range_single digit_def in_range_def)

lemma run_seconds_unit_S: "run seconds_unit (CHR ''S'' # r, c) = [(r, c)]"
  by (simp add: seconds_unit_def ci_def ch_def in_range_single)

lemma run_seconds_unit_HM:
  "run seconds_unit (CHR ''H'' # r, c) = []" "run seconds_unit (CHR ''M'' # r, c) = []"
  by (simp_all add: seconds_unit_def ci_def ch_def in_range_single)

lemma letter_not_digit:
  "\<not> member_c digit CHR ''H''" "\<not> member_c digit CHR ''h''"
  "\<not> member_c digit CHR ''M''" "\<not> member_c digit CHR ''m''"
  "\<not> member_c digit CHR ''S''" "\<not> member_c digit CHR ''s''"
  by (simp_all add: digit_def in_range_def)

lemma optional_group_digits:
  assumes "\<not> member_c digit y" and "\<And>x xs c'. member_c digit x \<Longrightarrow> run u (x # xs, c') = []"
  shows "run (optional_group k u) (digits n @ y # r, c) =
         run u (y # r, c(k \<mapsto> digits n)) @ [(digits n @ y # r, c)]"
  unfolding optional_group_def Opt_def
  by (simp add: run_Group_Plus_Seq [OF digits_all_digit digits_not_Nil assms(1) assms(2)]
      del: run.simps(3))

lemma optional_group_ci:
  assumes "\<not> member_c digit a" "\<not> member_c digit b" "\<not> member_c digit y"
  shows "run (optional_group k (ci a b)) (digits n @ y # r, c) =
         (if y = a \<or> y = b then [(r, c(k \<mapsto> digits n))] else []) @ [(digits n @ y # r, c)]"
  by (simp add: optional_group_digits [OF assms(3) digit_rejected_by_ci [OF assms(1,2)]] run_ci)

lemma optional_group_seconds:
  assumes "\<not> member_c digit y"
  shows "run (optional_group k seconds_unit) (digits n @ y # r, c) =
         run seconds_unit (y # r, c(k \<mapsto> digits n)) @ [(digits n @ y # r, c)]"
  by (rule optional_group_digits [OF assms digit_rejected_by_seconds])

lemma optional_group_Nil: "run (optional_group k u) ([], c) = [([], c)]"
  by (simp add: optional_group_def Opt_def Plus_def)

lemma run_Seq_optional_group:
  "run (Seq (optional_group k u) r2) sc = concat (map (run r2) (run (optional_group k u) sc))"
  by simp

lemma num_groups_durationPattern: "num_groups durationPattern = 3"
  by (simp add: durationPattern_def duration_groups_def optional_group_def seconds_unit_def
      Opt_def Plus_def ci_def ch_def)

lemma upt_1_4: "[1..<Suc 3] = [1, 2, 3]"
  by (simp add: upt_rec)

lemma wrap64_id: "0 \<le> x \<Longrightarrow> x < 2 ^ 63 \<Longrightarrow> wrap64 x = x"
  by (simp add: wrap64_def)

lemmas og_simps = component_def duration_groups_def run_Seq_optional_group optional_group_ci
  optional_group_seconds optional_group_Nil letter_not_digit run_seconds_unit_S run_seconds_unit_HM

lemma run_groups_all:
  "\<exists>caps rest. run duration_groups
     (component h CHR ''H'' @ component m CHR ''M'' @ component s CHR ''S'', Map.empty) = ([], caps) # rest \<and>
     caps 1 = map_option digits h \<and> caps 2 = map_option digits m \<and> caps 3 = map_option digits s"
  apply (cases h; cases m; cases s)
  apply (simp_all add: og_simps del: run.simps)
  done



lemma FindStringSubmatch_3:
  assumes "find_first r s = Some (w, c)" and "num_groups r = 3"
  shows "FindStringSubmatch r s =
    [w, case c 1 of None \<Rightarrow> [] | Some g \<Rightarrow> g, case c 2 of None \<Rightarrow> [] | Some g \<Rightarrow> g,
     case c 3 of None \<Rightarrow> [] | Some g \<Rightarrow> g]"
  unfolding FindStringSubmatch_def assms upt_1_4 by simp

lemma parse_duration_match:
  "FindStringSubmatch durationPattern d = [w, g1, g2, g3] \<Longrightarrow>
   parse_duration d =
     (wrap64 (wrap64 (wrap64 (fst (Atoi g1) * 60) + fst (Atoi g2)) + fst (Atoi g3) sdiv 60), None)"
  by (simp add: parse_duration_def)

lemma Atoi_group:
  "amount x < 2 ^ 63 \<Longrightarrow>
   fst (Atoi (case map_option digits x of None \<Rightarrow> [] | Some g \<Rightarrow> g)) = int (amount x)"
  by (cases x) (simp_all add: amount_def Atoi_empty Atoi_digits)

lemma parse_duration_components:
  assumes total: "amount h * 60 + amount m + amount s div 60 < 2 ^ 63" and sec: "amount s < 2 ^ 63"
  shows "parse_duration (''PT'' @ component h CHR ''H'' @ component m CHR ''M'' @ component s CHR ''S'') =
         (int (amount h * 60 + amount m + amount s div 60), None)"
proof -
  let ?input = "component h CHR ''H'' @ component m CHR ''M'' @ component s CHR ''S''"
  obtain caps rest where r: "run duration_groups (?input, Map.empty) = ([], caps) # rest"
    and c: "caps 1 = map_option digits h" "caps 2 = map_option digits m" "caps 3 = map_option digits s"
    using run_groups_all [of h m s] by blast
  have "run durationPattern (CHR ''P'' # CHR ''T'' # ?input, Map.empty) = ([], caps) # rest"
    by (simp add: run_durationPattern_Cons r)
  then have "find_first durationPattern (CHR ''P'' # CHR ''T'' # ?input) =
      Some (CHR ''P'' # CHR ''T'' # ?input, caps)"
    by (simp add: find_first.simps [of _ "CHR ''P'' # CHR ''T'' # ?input"])
  then have ff: "find_first durationPattern (''PT'' @ ?input) = Some (''PT'' @ ?input, caps)"
    by simp
  have m: "FindStringSubmatch durationPattern (''PT'' @ ?input) =
      [''PT'' @ ?input,
       case map_option digits h of None \<Rightarrow> [] | Some g \<Rightarrow> g,
       case map_option digits m of None \<Rightarrow> [] | Some g \<Rightarrow> g,
       case map_option digits s of None \<Rightarrow> [] | Some g \<Rightarrow> g]"
    unfolding FindStringSubmatch_3 [OF ff num_groups_durationPattern] c by (rule refl)
  have hb: "amount h < 2 ^ 63" and mb: "amount m < 2 ^ 63" using total by linarith+
  have "int (amount h * 60 + amount m + amount s div 60) < 2 ^ 63"
    using total by (metis of_nat_less_iff of_nat_numeral of_nat_power)
  then have all: "int (amount h) * 60 + int (amount m) + int (amount s div 60) < 2 ^ 63"
    by simp
  then have hm: "int (amount h) * 60 + int (amount m) < 2 ^ 63" by linarith
  then have h60: "int (amount h) * 60 < 2 ^ 63" by linarith
  have sd: "int (amount s) sdiv 60 = int (amount s div 60)"
    by (simp add: sdiv_nonneg zdiv_int)
  have a: "fst (Atoi (case map_option digits h of None \<Rightarrow> [] | Some g \<Rightarrow> g)) = int (amount h)"
    by (rule Atoi_group [OF hb])
  have b: "fst (Atoi (case map_option digits m of None \<Rightarrow> [] | Some g \<Rightarrow> g)) = int (amount m)"
    by (rule Atoi_group [OF mb])
  have c: "fst (Atoi (case map_option digits s of None \<Rightarrow> [] | Some g \<Rightarrow> g)) = int (amount s)"
    by (rule Atoi_group [OF sec])
  have w1: "wrap64 (int (amount h) * 60) = int (amount h) * 60"
    by (rule wrap64_id) (use h60 in simp_all)
  have w2: "wrap64 (int (amount h) * 60 + int (amount m)) = int (amount h) * 60 + int (amount m)"
    by (rule wrap64_id) (use hm in simp_all)
  have w3: "wrap64 (int (amount h) * 60 + int (amount m) + int (amount s div 60)) =
    int (amount h) * 60 + int (amount m) + int (amount s div 60)"
    by (rule wrap64_id) (use all in simp_all)
  have "parse_duration (''PT'' @ ?input) =
    (wrap64 (wrap64 (wrap64 (int (amount h) * 60) + int (amount m)) + int (amount s) sdiv 60), None)"
    unfolding parse_duration_match [OF m] a b c by (rule refl)
  then show ?thesis
    unfolding sd w1 w2 w3 by simp
qed


lemma parse_duration_examples:
  "parse_duration ''PT1H2M3S'' = (62, None)"
  "parse_duration ''PT15S'' = (0, None)"
  "parse_duration ''PT'' = (0, None)"
  by code_simp+

lemma GrabDuration_first_item:
  "service yt \<Longrightarrow> VideosList e (length (requests yt)) [''contentDetails''] v = Inr (item # others) \<Longrightarrow>
   fst (GrabDuration e v yt) = Return (parse_duration (video_Duration item))"
  by (simp add: GrabDuration_def Let_def)

text \<open>
  C4. The duration string of the first item is turned into whole minutes, hours times 60
  plus minutes plus seconds divided by 60 without remainder: \<open>PT1H2M3S\<close> gives 62, \<open>PT15S\<close>
  gives 0 and \<open>PT\<close> gives 0 without an error; in general \<open>PT\<close> followed by any of the
  components hours, minutes and seconds (each present or not, in this order) gives the
  minutes of the formula, as long as they fit a 64-bit integer. A string fails with the
  invalid-duration error exactly when it does not hold the marker \<open>PT\<close> anywhere; every
  other string gives a number without an error.
\<close>

theorem duration_in_minutes:
  "parse_duration ''PT1H2M3S'' = (62, None) \<and>
   parse_duration ''PT15S'' = (0, None) \<and>
   parse_duration ''PT'' = (0, None) \<and>
   (\<forall>h m s. amount h * 60 + amount m + amount s div 60 < 2 ^ 63 \<and> amount s < 2 ^ 63 \<longrightarrow>
      parse_duration (''PT'' @ component h CHR ''H'' @ component m CHR ''M'' @ component s CHR ''S'') =
        (int (amount h * 60 + amount m + amount s div 60), None)) \<and>
   (\<forall>d. parse_duration d = (0, Some (InvalidDuration d)) \<longleftrightarrow> \<not> has_PT d) \<and>
   (\<forall>d. has_PT d \<longrightarrow> snd (parse_duration d) = None) \<and>
   (\<forall>e v yt item others.
      service yt \<and> VideosList e (length (requests yt)) [''contentDetails''] v = Inr (item # others) \<longrightarrow>
      fst (GrabDuration e v yt) = Return (parse_duration (video_Duration item)))"
  using parse_duration_examples parse_duration_components parse_duration_invalid_iff
    parse_duration_valid GrabDuration_first_item
  by blast

theorem duration_in_minutes_witness:
  "parse_duration (''PT'' @ component (Some 2) CHR ''H'' @ component None CHR ''M'' @
                   component (Some 119) CHR ''S'') = (121, None)"
proof -
  have "amount (Some 2) * 60 + amount None + amount (Some 119) div 60 < 2 ^ 63 \<and>
        amount (Some 119) < 2 ^ 63"
    by (simp add: amount_def)
  then have "parse_duration (''PT'' @ component (Some 2) CHR ''H'' @ component None CHR ''M'' @
                   component (Some 119) CHR ''S'') =
        (int (amount (Some 2) * 60 + amount None + amount (Some 119) div 60), None)"
    using duration_in_minutes by blast
  then show ?thesis by (simp add: amount_def)
qed


section \<open>The choice of the caption track\<close>

lemma find_lang_match_find:
  "find_lang_match e language tracks = find (\<lambda>u. lang_of e u = Some language) tracks"
  by (induction tracks) (auto simp: lang_of_def split: sum.splits option.splits list.splits)

lemma select_track_chosen:
  "tracks \<noteq> [] \<Longrightarrow>
   select_track e language tracks =
     (if chosen_track e language tracks = [] then Inl NoSuitableURL
      else Inr (chosen_track e language tracks))"
  by (cases tracks)
     (auto simp: select_track_def chosen_track_def find_lang_match_find Let_def split: option.splits)

lemma select_track_examples:
  "select_track offline ''en'' [''/tt?lang=es'', ''/tt?lang=en''] = Inr ''/tt?lang=en''"
  "select_track offline ''fr'' [''/tt?lang=es'', ''/tt?lang=en''] = Inr ''/tt?lang=es''"
  "lang_of offline ''/tt?lang=es'' = Some ''es''" "lang_of offline ''/tt?lang=en'' = Some ''en''"
  by code_simp+

text \<open>
  C5 (as amended). Among a non-empty list of caption tracks the selection takes the first
  track whose URL parses and whose \<^verbatim>\<open>lang\<close> parameter is exactly the language asked for,
  and the first track of the list when there is none; it fails, with the error that no
  suitable URL was found, exactly when the URL so chosen is empty. For the tracks
  \<open>es\<close>, \<open>en\<close> the language \<open>en\<close> selects the second URL and \<open>fr\<close> the first.
\<close>

theorem select_track_by_language:
  "(\<forall>e language tracks. tracks \<noteq> [] \<longrightarrow>
      select_track e language tracks =
        (if chosen_track e language tracks = [] then Inl NoSuitableURL
         else Inr (chosen_track e language tracks))) \<and>
   lang_of offline ''/tt?lang=es'' = Some ''es'' \<and> lang_of offline ''/tt?lang=en'' = Some ''en'' \<and>
   select_track offline ''en'' [''/tt?lang=es'', ''/tt?lang=en''] = Inr ''/tt?lang=en'' \<and>
   select_track offline ''fr'' [''/tt?lang=es'', ''/tt?lang=en''] = Inr ''/tt?lang=es''"
  using select_track_chosen select_track_examples by blast

theorem select_track_by_language_witness:
  "select_track offline ''es'' [''/tt?lang=en'', ''/tt'', ''/tt?lang=es''] = Inr ''/tt?lang=es''"
proof -
  have "[''/tt?lang=en'', ''/tt'', ''/tt?lang=es''] \<noteq> []" by simp
  then have "select_track offline ''es'' [''/tt?lang=en'', ''/tt'', ''/tt?lang=es''] =
        (if chosen_track offline ''es'' [''/tt?lang=en'', ''/tt'', ''/tt?lang=es''] = [] then Inl NoSuitableURL
         else Inr (chosen_track offline ''es'' [''/tt?lang=en'', ''/tt'', ''/tt?lang=es'']))"
    using select_track_by_language by blast
  moreover have "chosen_track offline ''es'' [''/tt?lang=en'', ''/tt'', ''/tt?lang=es''] = ''/tt?lang=es''"
    by code_simp
  ultimately show ?thesis by simp
qed

text \<open>
  The claim as stated fails on a list whose first track has no URL: no track is of the
  language, the fallback is the empty URL, and the selection fails.
\<close>

theorem select_track_fails_counterexample:
  "lang_of offline [] = None \<and> select_track offline ''fr'' [[]] = Inl NoSuitableURL"
  by code_simp



section \<open>The plain transcript\<close>

lemma Contains_sublist: "Contains s substr \<longleftrightarrow> sublist substr s"
  by (induction s) (auto simp: sublist_Cons_right)

lemma transcript_loop_concat:
  "transcript_loop tags b ret =
     (if tags = [] then ret else b @ concat (map (\<lambda>t. unescape (tag_Text t) @ '' '') tags))"
  by (induction tags arbitrary: b ret) (auto simp: Let_def)

lemma unescape_Nil: "unescape [] = []"
  by (simp add: unescape_def)

lemma unescape_Cons:
  "unescape (c # cs) =
     (if prefix ''&#39;'' (c # cs) then CHR 0x27 # unescape (drop 4 cs) else c # unescape cs)"
  by (simp add: unescape_def eval_nat_numeral)

lemma prefix_unescape:
  "CHR ''&'' \<notin> set q \<Longrightarrow> CHR 0x27 \<notin> set q \<Longrightarrow> prefix q (unescape s) \<Longrightarrow> prefix q s"
proof (induction q arbitrary: s)
  case Nil
  then show ?case by simp
next
  case (Cons a q)
  show ?case
  proof (cases s)
    case Nil
    then show ?thesis using Cons.prems by (simp add: unescape_Nil)
  next
    case (Cons c cs)
    show ?thesis
    proof (cases "prefix ''&#39;'' (c # cs)")
      case True
      then have "unescape s = CHR 0x27 # unescape (drop 4 cs)"
        unfolding Cons by (simp only: unescape_Cons if_True)
      then show ?thesis using Cons.prems by simp
    next
      case False
      then have "unescape s = c # unescape cs"
        unfolding Cons by (simp only: unescape_Cons if_False)
      then show ?thesis using Cons.prems Cons.IH [of cs] Cons by simp
    qed
  qed
qed

lemma not_prefix_unescape: "\<not> prefix ''&#39;'' (unescape s)"
proof (cases s)
  case Nil
  then show ?thesis by (simp add: unescape_Nil)
next
  case (Cons c cs)
  show ?thesis
  proof (cases "prefix ''&#39;'' (c # cs)")
    case True
    then have "unescape s = CHR 0x27 # unescape (drop 4 cs)"
      unfolding Cons by (simp only: unescape_Cons if_True)
    then show ?thesis by simp
  next
    case False
    then have u: "unescape s = c # unescape cs"
      unfolding Cons by (simp only: unescape_Cons if_False)
    show ?thesis
    proof
      assume "prefix ''&#39;'' (unescape s)"
      then have c: "c = CHR ''&''" and p: "prefix ''#39;'' (unescape cs)" by (simp_all add: u)
      have "prefix ''#39;'' cs" by (rule prefix_unescape [OF _ _ p]) simp_all
      then show False using False c by simp
    qed
  qed
qed

lemma not_sublist_unescape: "\<not> sublist ''&#39;'' (unescape s)"
proof (induction s rule: length_induct)
  case (1 s)
  show ?case
  proof (cases s)
    case Nil
    then show ?thesis by (simp add: unescape_Nil)
  next
    case (Cons c cs)
    have np: "\<not> prefix ''&#39;'' (unescape s)" by (rule not_prefix_unescape)
    show ?thesis
    proof (cases "prefix ''&#39;'' (c # cs)")
      case True
      then have u: "unescape s = CHR 0x27 # unescape (drop 4 cs)"
        unfolding Cons by (simp only: unescape_Cons if_True)
      have "length (drop 4 cs) < length s" using Cons by simp
      then have "\<not> sublist ''&#39;'' (unescape (drop 4 cs))" using 1 by blast
      then show ?thesis using np unfolding u by (simp add: sublist_Cons_right)
    next
      case False
      then have u: "unescape s = c # unescape cs"
        unfolding Cons by (simp only: unescape_Cons if_False)
      have "\<not> sublist ''&#39;'' (unescape cs)" using 1 Cons by simp
      then show ?thesis using np unfolding u by (simp add: sublist_Cons_right)
    qed
  qed
qed

lemma sublist_across_separator:
  assumes "c \<notin> set p"
  shows "sublist p (xs @ c # ys) \<longleftrightarrow> sublist p xs \<or> sublist p ys"
proof
  assume "sublist p (xs @ c # ys)"
  then consider "sublist p xs" | "sublist p (c # ys)"
    | p1 p2 where "p = p1 @ p2" "suffix p1 xs" "prefix p2 (c # ys)"
    unfolding sublist_append by blast
  then show "sublist p xs \<or> sublist p ys"
  proof cases
    case 1
    then show ?thesis by simp
  next
    case 2
    then have "prefix p (c # ys) \<or> sublist p ys" by (simp add: sublist_Cons_right)
    moreover have "prefix p (c # ys) \<Longrightarrow> p = []"
      using assms by (cases p) auto
    ultimately show ?thesis by auto
  next
    case 3
    have "p2 = []" using 3(1,3) assms by (cases p2) auto
    then have "suffix p xs" using 3 by simp
    then show ?thesis by (simp add: suffix_imp_sublist)
  qed
next
  assume "sublist p xs \<or> sublist p ys"
  then show "sublist p (xs @ c # ys)"
    by (auto simp: sublist_append sublist_Cons_right)
qed

lemma not_sublist_transcript:
  "\<not> sublist ''&#39;'' (concat (map (\<lambda>t. unescape (tag_Text t) @ '' '') tags))"
proof (induction tags)
  case Nil
  then show ?case by simp
next
  case (Cons t tags)
  have "CHR '' '' \<notin> set ''&#39;''" by simp
  from sublist_across_separator [OF this]
  show ?case using Cons not_sublist_unescape by simp
qed

lemma unescape_id: "\<not> sublist ''&#39;'' s \<Longrightarrow> unescape s = s"
proof (induction s)
  case Nil
  then show ?case by (simp add: unescape_Nil)
next
  case (Cons c cs)
  then have np: "\<not> prefix ''&#39;'' (c # cs)" and ns: "\<not> sublist ''&#39;'' cs"
    by (simp_all add: sublist_Cons_right)
  have "unescape (c # cs) = c # unescape cs"
    using np by (simp only: unescape_Cons if_False)
  then show ?case using Cons.IH [OF ns] by simp
qed

lemma GrabTranscript_ok:
  "GrabTranscriptBase e v l yt = ((doc, None), yt') \<Longrightarrow>
   GrabTranscript e v l yt =
     ((concat (map (\<lambda>t. unescape (tag_Text t) @ '' '') (FindAllText e doc)), None), yt')"
  by (simp add: GrabTranscript_def transcript_loop_concat)

lemma GrabTranscript_no_entity: "\<not> Contains (fst (fst (GrabTranscript e v l yt))) ''&#39;''"
proof (cases "GrabTranscriptBase e v l yt")
  case (Pair r yt')
  obtain doc err where r: "r = (doc, err)" by (cases r)
  show ?thesis
  proof (cases err)
    case None
    then show ?thesis
      using GrabTranscript_ok [of e v l yt doc yt'] Pair r not_sublist_transcript
      by (simp add: Contains_sublist)
  next
    case (Some a)
    then show ?thesis using Pair r by (simp add: GrabTranscript_def)
  qed
qed

lemma unescape_example: "unescape ''it&#39;s'' = ''it'' @ [CHR 0x27] @ ''s''"
  by code_simp

text \<open>
  C6 (as amended). The plain transcript is the text of every caption node of the caption
  document, in order, each followed by one space (so a transcript of at least one node
  ends with a space), with every \<open>&#39;\<close> of a text replaced by an apostrophe and a text
  without \<open>&#39;\<close> left as it is. Whatever the caption document, and also when the fetch
  fails, the text returned does not contain \<open>&#39;\<close>.
\<close>

theorem GrabTranscript_text:
  "(\<forall>e v l yt doc yt'. GrabTranscriptBase e v l yt = ((doc, None), yt') \<longrightarrow>
      GrabTranscript e v l yt =
        ((concat (map (\<lambda>t. unescape (tag_Text t) @ '' '') (FindAllText e doc)), None), yt')) \<and>
   (\<forall>e v l yt. \<not> Contains (fst (fst (GrabTranscript e v l yt))) ''&#39;'') \<and>
   (\<forall>s. \<not> Contains (unescape s) ''&#39;'') \<and>
   (\<forall>s. \<not> Contains s ''&#39;'' \<longrightarrow> unescape s = s) \<and>
   unescape ''it&#39;s'' = ''it'' @ [CHR 0x27] @ ''s''"
  using GrabTranscript_ok GrabTranscript_no_entity not_sublist_unescape unescape_id unescape_example
  by (simp add: Contains_sublist)

theorem GrabTranscript_text_witness:
  "fst (GrabTranscript online ''abc'' ''en'' ready) = (''it'' @ [CHR 0x27] @ ''s fine '', None)"
proof -
  let ?yt = "\<lparr>service = True,
    requests = [HttpGet ''https://www.youtube.com/watch?v=abc'' watch_headers, HttpGet ''/tt?lang=en'' []]\<rparr>"
  have b: "GrabTranscriptBase online ''abc'' ''en'' ready = ((''<captions en>'', None), ?yt)"
    by code_simp
  have t: "concat (map (\<lambda>t. unescape (tag_Text t) @ '' '') (FindAllText online ''<captions en>'')) =
    ''it'' @ [CHR 0x27] @ ''s fine ''"
    by code_simp
  from GrabTranscript_text b
  have "GrabTranscript online ''abc'' ''en'' ready =
        ((concat (map (\<lambda>t. unescape (tag_Text t) @ '' '') (FindAllText online ''<captions en>'')), None), ?yt)"
    by blast
  then show ?thesis by (simp only: t fst_conv)
qed

text \<open>
  The claim as stated fails on a caption document of one node: the transcript is the text
  and a space, not the text alone.
\<close>

theorem GrabTranscript_trailing_space_counterexample:
  "map tag_Text (FindAllText online ''<captions es>'') = [''vale''] \<and>
   separated [''vale''] = ''vale'' \<and>
   fst (GrabTranscript online ''abc'' ''es'' ready) = (''vale '', None)"
  by code_simp


section \<open>Identifier resolution: when it fails\<close>

lemma star_length: "s' \<in> set (star cs xs) \<Longrightarrow> length s' \<le> length xs"
  by (induction xs) (auto split: if_splits)

lemma star_subset: "s' \<in> set (star cs xs) \<Longrightarrow> set s' \<subseteq> set xs"
  by (induction xs) (auto split: if_splits)

lemma star_first:
  assumes "list_all (member_c cs) X" and "rest = [] \<or> \<not> member_c cs (hd rest)"
  shows "\<exists>others. star cs (X @ rest) = rest # others"
  using assms(1)
proof (induction X)
  case Nil
  then show ?case using assms(2) by (cases rest) auto
next
  case (Cons x X)
  then show ?case by auto
qed

lemma in_run_Seq:
  "x \<in> set (run (Seq r1 r2) sc) \<longleftrightarrow> (\<exists>y \<in> set (run r1 sc). x \<in> set (run r2 y))"
  by auto

lemma in_run_Group_Plus:
  assumes "(s', c') \<in> set (run (Group n (Plus cs)) (s, c))"
  shows "\<exists>g. c' n = Some g \<and> g \<noteq> []"
proof (cases s)
  case Nil
  then show ?thesis using assms by (simp add: Plus_def)
next
  case (Cons x xs)
  from assms obtain t where t: "t \<in> set (star cs xs)" and s': "s' = t"
    and c': "c' = c(n \<mapsto> take (length s - length t) s)"
    by (auto simp: Plus_def Cons split: if_splits)
  have "length t < length s" using star_length [OF t] Cons by simp
  then have "take (length s - length t) s \<noteq> []" using Cons by auto
  then show ?thesis using c' by simp
qed

lemma find_first_Some:
  "find_first r s = Some (w, c) \<Longrightarrow> \<exists>s0 s'. (s', c) \<in> set (run r (s0, Map.empty))"
proof (induction r s rule: find_first.induct)
  case (1 r s)
  show ?case
  proof (cases "run r (s, Map.empty)")
    case Nil
    then have eq: "find_first r s = (case s of [] \<Rightarrow> None | x # xs \<Rightarrow> find_first r xs)"
      by (subst find_first.simps) simp
    then obtain x xs where s: "s = x # xs" and "find_first r xs = Some (w, c)"
      using "1.prems" by (cases s) auto
    then show ?thesis using "1.IH" Nil by blast
  next
    case (Cons a list)
    then have "find_first r s = Some (take (length s - length (fst a)) s, snd a)"
      by (subst find_first.simps) (simp split: prod.splits)
    then have "snd a = c" using "1.prems" by simp
    then have "(fst a, c) \<in> set (run r (s, Map.empty))" using Cons by (cases a) auto
    then show ?thesis by blast
  qed
qed

lemma num_groups_lit: "num_groups (lit w) = 0"
  by (induction w) (simp_all add: ch_def)

lemma num_groups_playlistPattern: "num_groups playlistPattern = 1"
  by (simp add: playlistPattern_def playlist_id_group_def Plus_def ch_def)

lemma upt_1_2: "[1..<Suc 1] = [1]"
  by (simp add: upt_rec)

lemma playlist_group_not_empty:
  assumes "find_first playlistPattern url = Some (w, c)"
  shows "\<exists>g. c 1 = Some g \<and> g \<noteq> []"
proof -
  obtain s0 s' where "(s', c) \<in> set (run playlistPattern (s0, Map.empty))"
    using find_first_Some [OF assms] by blast
  then obtain y where "(s', c) \<in> set (run playlist_id_group y)"
    unfolding playlistPattern_def in_run_Seq by blast
  then show ?thesis
    unfolding playlist_id_group_def using in_run_Group_Plus [of s' c 1 id_char "fst y" "snd y"] by simp
qed

lemma playlist_match:
  "FindStringSubmatch playlistPattern url = [] \<or>
   (\<exists>w g. g \<noteq> [] \<and> FindStringSubmatch playlistPattern url = [w, g])"
proof (cases "find_first playlistPattern url")
  case None
  then show ?thesis by (simp add: FindStringSubmatch_def)
next
  case (Some a)
  obtain w c where a: "a = (w, c)" by (cases a)
  obtain g where g: "c 1 = Some g" "g \<noteq> []"
    using playlist_group_not_empty Some a by blast
  have "FindStringSubmatch playlistPattern url = [w, g]"
    unfolding FindStringSubmatch_def Some a num_groups_playlistPattern upt_1_2 using g by simp
  then show ?thesis using g by blast
qed

lemma GetVideoOrPlaylistId_ok:
  assumes "initService e yt = (None, yt')"
  shows "\<exists>p err. GetVideoOrPlaylistId e url yt = ((video_id_of url, p, err), yt') \<and>
     (err = None \<or> err = Some (InvalidURL url)) \<and>
     (err = Some (InvalidURL url) \<longleftrightarrow>
        video_id_of url = [] \<and> FindStringSubmatch playlistPattern url = []) \<and>
     (err = None \<longrightarrow> video_id_of url \<noteq> [] \<or> p \<noteq> [])"
  using playlist_match [of url]
  by (auto simp: GetVideoOrPlaylistId_def assms Let_def video_id_of_def)

lemma GetVideoOrPlaylistId_not_both_empty:
  "GetVideoOrPlaylistId e url yt = ((v, p, None), yt') \<Longrightarrow> v \<noteq> [] \<or> p \<noteq> []"
  by (auto simp: GetVideoOrPlaylistId_def Let_def split: prod.splits option.splits if_splits)


lemma num_groups_videoPattern: "num_groups videoPattern = 1"
  by (simp add: videoPattern_def video_id_group_def path_branches_def branch_live_def
      branch_segments_def branch_embed_def branch_shorts_def branch_query_def Opt_def Plus_def ch_def)

lemma FindStringSubmatch_1:
  assumes "find_first r s = Some (w, c)" and "num_groups r = 1"
  shows "FindStringSubmatch r s = [w, case c 1 of None \<Rightarrow> [] | Some g \<Rightarrow> g]"
  unfolding FindStringSubmatch_def assms upt_1_2 by simp

lemma video_match_shape:
  "FindStringSubmatch videoPattern url = [] \<or> (\<exists>w g. FindStringSubmatch videoPattern url = [w, g])"
proof (cases "find_first videoPattern url")
  case None
  then show ?thesis by (simp add: FindStringSubmatch_def)
next
  case (Some a)
  then show ?thesis
    using FindStringSubmatch_1 [of videoPattern url "fst a" "snd a", OF _ num_groups_videoPattern]
    by simp
qed

lemma video_id_of_empty:
  "video_id_of url = [] \<longleftrightarrow>
     FindStringSubmatch videoPattern url = [] \<or> (\<exists>w. FindStringSubmatch videoPattern url = [w, []])"
  using video_match_shape [of url] by (auto simp: video_id_of_def Let_def)

text \<open>
  C2 (as amended). With the API client in place, resolution returns the identifier read by
  the video pattern and fails, with the invalid-URL error and no other, exactly when that
  identifier is empty and the playlist pattern matches nowhere in the URL. The identifier
  is empty when the video pattern matches nowhere, and also when it matches with an empty
  identifier group. Whenever resolution succeeds, the video identifier or the playlist
  identifier is not empty.
\<close>

theorem resolution_fails_iff:
  "(initService e yt = (None, yt') \<longrightarrow>
      (\<exists>p err. GetVideoOrPlaylistId e url yt = ((video_id_of url, p, err), yt') \<and>
         (err = None \<or> err = Some (InvalidURL url)) \<and>
         (err = Some (InvalidURL url) \<longleftrightarrow>
            video_id_of url = [] \<and> FindStringSubmatch playlistPattern url = []))) \<and>
   (\<forall>v p yt''. GetVideoOrPlaylistId e url yt = ((v, p, None), yt'') \<longrightarrow> v \<noteq> [] \<or> p \<noteq> []) \<and>
   (video_id_of url = [] \<longleftrightarrow>
      FindStringSubmatch videoPattern url = [] \<or> (\<exists>w. FindStringSubmatch videoPattern url = [w, []]))"
proof -
  have "initService e yt = (None, yt') \<longrightarrow>
      (\<exists>p err. GetVideoOrPlaylistId e url yt = ((video_id_of url, p, err), yt') \<and>
         (err = None \<or> err = Some (InvalidURL url)) \<and>
         (err = Some (InvalidURL url) \<longleftrightarrow>
            video_id_of url = [] \<and> FindStringSubmatch playlistPattern url = []))"
    using GetVideoOrPlaylistId_ok [of e yt yt' url] by blast
  moreover have "\<forall>v p yt''. GetVideoOrPlaylistId e url yt = ((v, p, None), yt'') \<longrightarrow> v \<noteq> [] \<or> p \<noteq> []"
    using GetVideoOrPlaylistId_not_both_empty by blast
  ultimately show ?thesis using video_id_of_empty [of url] by blast
qed

theorem resolution_fails_iff_witness:
  "fst (GetVideoOrPlaylistId offline ''https://example.org/'' fresh) =
     ([], [], Some (InvalidURL ''https://example.org/''))"
proof -
  have i: "initService offline fresh = (None, \<lparr>service = True, requests = [NewServiceCall]\<rparr>)"
    by code_simp
  have v: "video_id_of ''https://example.org/'' = []" by code_simp
  have p: "FindStringSubmatch playlistPattern ''https://example.org/'' = []" by code_simp
  from resolution_fails_iff [of offline fresh _ "''https://example.org/''"] i
  obtain pl err where
    g: "GetVideoOrPlaylistId offline ''https://example.org/'' fresh =
        ((video_id_of ''https://example.org/'', pl, err), \<lparr>service = True, requests = [NewServiceCall]\<rparr>)"
    and e: "err = Some (InvalidURL ''https://example.org/'') \<longleftrightarrow>
            video_id_of ''https://example.org/'' = [] \<and>
            FindStringSubmatch playlistPattern ''https://example.org/'' = []"
    by blast
  have "pl = []" using g by (simp add: GetVideoOrPlaylistId_def i p Let_def)
  then show ?thesis using g e v p by simp
qed

text \<open>
  The claim as stated fails on a URL the video pattern matches with an empty identifier:
  the pattern matches, and resolution fails all the same.
\<close>

theorem resolution_empty_id_counterexample:
  "FindStringSubmatch videoPattern ''https://www.youtube.com/embed/'' =
     [''https://www.youtube.com/embed/'', []] \<and>
   fst (GetVideoOrPlaylistId offline ''https://www.youtube.com/embed/'' fresh) =
     ([], [], Some (InvalidURL ''https://www.youtube.com/embed/''))"
  by code_simp



section \<open>Identifier resolution: watch URLs\<close>

lemma run_ch: "run (ch a) (s, c) = (case s of [] \<Rightarrow> [] | x # xs \<Rightarrow> if x = a then [(xs, c)] else [])"
  by (simp add: ch_def in_range_single split: list.splits)

lemma run_branch_segments_no_slash:
  assumes "CHR ''/'' \<notin> set s"
  shows "run branch_segments (s, c) = []"
proof -
  let ?C = "NoneOf ((CHR ''/'', CHR ''/'') # (CHR 0x0A, CHR 0x0A) # space_ranges)"
  let ?R = "Seq (ch CHR ''/'') (Seq (Plus non_space) (ch CHR ''/''))"
  have "run ?R y = []" if "y \<in> set (run (Plus ?C) (s, c))" for y
  proof -
    from that obtain x xs t where "s = x # xs" and t: "t \<in> set (star ?C xs)" and y: "y = (t, c)"
      by (cases s) (auto simp: Plus_def split: if_splits)
    then have "CHR ''/'' \<notin> set t" using star_subset [OF t] assms by auto
    then have "run (ch CHR ''/'') (t, c) = []" by (cases t) (auto simp: run_ch)
    then show ?thesis by (simp add: y del: run.simps(2))
  qed
  then show ?thesis
    unfolding branch_segments_def by (simp del: run.simps(2))
qed

lemma run_branch_query_watch:
  "\<exists>others. run branch_query (''watch?v='' @ Y, c) = (Y, c) # others"
  by (simp add: branch_query_def non_space_def space_ranges_def in_range_def ch_def)

lemma run_path_branches_watch:
  assumes "CHR ''/'' \<notin> set Y"
  shows "\<exists>others. run path_branches (''watch?v='' @ Y, c) = (Y, c) # others"
proof -
  have "CHR ''/'' \<notin> set (''watch?v='' @ Y)" using assms by simp
  then have seg: "run branch_segments (''watch?v='' @ Y, c) = []"
    by (rule run_branch_segments_no_slash)
  have live: "run branch_live (''watch?v='' @ Y, c) = []"
    by (simp add: branch_live_def ch_def in_range_def)
  have embed: "run branch_embed (''watch?v='' @ Y, c) = []"
    by (simp add: branch_embed_def ch_def in_range_def Opt_def)
  have shorts: "run branch_shorts (''watch?v='' @ Y, c) = []"
    by (simp add: branch_shorts_def ch_def in_range_def)
  obtain others where "run branch_query (''watch?v='' @ Y, c) = (Y, c) # others"
    using run_branch_query_watch by blast
  then show ?thesis
    unfolding path_branches_def using seg live embed shorts by simp
qed

lemma run_video_id_group:
  assumes "list_all (member_c id_char) X" and "rest = [] \<or> \<not> member_c id_char (hd rest)"
  shows "\<exists>others. run video_id_group (X @ rest, c) = (rest, c(1 \<mapsto> X)) # others"
proof -
  obtain others where "star id_char (X @ rest) = rest # others"
    using star_first [OF assms] by blast
  then show ?thesis by (simp add: video_id_group_def)
qed

lemma id_char_not_slash: "member_c id_char x \<Longrightarrow> x \<noteq> CHR ''/''"
  by (auto simp: id_char_def in_range_def)

lemma run_videoPattern_watch:
  assumes X: "list_all (member_c id_char) X" and rest: "rest = [] \<or> \<not> member_c id_char (hd rest)"
    and slash: "CHR ''/'' \<notin> set rest"
    and scheme: "scheme \<in> {[], ''http://'', ''https://''}" and www: "www \<in> {[], ''www.''}"
  shows "\<exists>others. run videoPattern (scheme @ www @ ''youtube.com/watch?v='' @ X @ rest, c) =
           (rest, c(1 \<mapsto> X)) # others"
proof -
  have "CHR ''/'' \<notin> set X" using X id_char_not_slash by (auto simp: list_all_iff)
  then have "CHR ''/'' \<notin> set (X @ rest)" using slash by simp
  then obtain o1 where pb: "run path_branches (''watch?v='' @ X @ rest, c) = (X @ rest, c) # o1"
    using run_path_branches_watch by blast
  obtain o2 where g: "run video_id_group (X @ rest, c) = (rest, c(1 \<mapsto> X)) # o2"
    using run_video_id_group [OF X rest] by blast
  have pb': "run path_branches (CHR ''w'' # CHR ''a'' # CHR ''t'' # CHR ''c'' # CHR ''h'' # CHR ''?'' #
      CHR ''v'' # CHR ''='' # X @ rest, c) = (X @ rest, c) # o1"
    using pb by simp
  from scheme www show ?thesis
    by (auto simp: videoPattern_def Opt_def ch_def in_range_def pb' g)
qed



lemma video_id_of_watch:
  assumes X: "list_all (member_c id_char) X" and rest: "rest = [] \<or> \<not> member_c id_char (hd rest)"
    and slash: "CHR ''/'' \<notin> set rest"
    and scheme: "scheme \<in> {[], ''http://'', ''https://''}" and www: "www \<in> {[], ''www.''}"
  shows "video_id_of (scheme @ www @ ''youtube.com/watch?v='' @ X @ rest) = X"
proof -
  let ?url = "scheme @ www @ ''youtube.com/watch?v='' @ X @ rest"
  obtain others where "run videoPattern (?url, Map.empty) = (rest, [1 \<mapsto> X]) # others"
    using run_videoPattern_watch [OF assms] by blast
  then have "find_first videoPattern ?url = Some (take (length ?url - length rest) ?url, [1 \<mapsto> X])"
    by (subst find_first.simps) simp
  from FindStringSubmatch_1 [OF this num_groups_videoPattern]
  show ?thesis by (simp add: video_id_of_def)
qed

text \<open>
  C3 (as amended). For a URL made of an optional \<open>http://\<close> or \<open>https://\<close>, an optional
  \<open>www.\<close>, then \<open>youtube.com/watch?v=\<close>, an identifier \<open>X\<close> of letters, digits, \<open>_\<close> and
  \<open>-\<close>, and a remainder that is empty or starts with another character and holds no
  \<open>/\<close>, resolution yields the video identifier \<open>X\<close>, without an error when \<open>X\<close> is not
  empty.
\<close>

theorem watch_url_video_id:
  assumes "initService e yt = (None, yt')"
    and "list_all (member_c id_char) X" and "rest = [] \<or> \<not> member_c id_char (hd rest)"
    and "CHR ''/'' \<notin> set rest"
    and "scheme \<in> {[], ''http://'', ''https://''}" and "www \<in> {[], ''www.''}"
  shows "\<exists>p err. GetVideoOrPlaylistId e (scheme @ www @ ''youtube.com/watch?v='' @ X @ rest) yt =
           ((X, p, err), yt') \<and> (X \<noteq> [] \<longrightarrow> err = None)"
  using GetVideoOrPlaylistId_ok [OF assms(1), of "scheme @ www @ ''youtube.com/watch?v='' @ X @ rest"]
    video_id_of_watch [OF assms(2-6)]
  by auto

theorem watch_url_video_id_witness:
  "fst (fst (GetVideoOrPlaylistId offline ''https://www.youtube.com/watch?v=dQw4w9WgXcQ&t=42'' fresh)) =
     ''dQw4w9WgXcQ''"
proof -
  have i: "initService offline fresh = (None, \<lparr>service = True, requests = [NewServiceCall]\<rparr>)"
    by code_simp
  have x: "list_all (member_c id_char) ''dQw4w9WgXcQ''" by code_simp
  have r: "''&t=42'' = [] \<or> \<not> member_c id_char (hd ''&t=42'')" by code_simp
  have s: "CHR ''/'' \<notin> set ''&t=42''" by simp
  have p: "''https://'' \<in> {[], ''http://'', ''https://''}" and w: "''www.'' \<in> {[], ''www.''}" by simp_all
  from watch_url_video_id [OF i x r s p w]
  show ?thesis by auto
qed

text \<open>
  The claim as stated fails on a URL of another host, where resolution finds no video, and
  on a URL of the platform whose remainder has two more slashes, where the segment
  alternative of the pattern comes first and the identifier is read after the last slash.
\<close>

theorem watch_url_other_host_counterexample:
  "fst (GetVideoOrPlaylistId offline ''https://vimeo.com/watch?v=abc'' fresh) =
     ([], [], Some (InvalidURL ''https://vimeo.com/watch?v=abc'')) \<and>
   fst (GetVideoOrPlaylistId offline ''https://www.youtube.com/watch?v=abc&t=1/2/3'' fresh) =
     (''3'', [], None)"
  by code_simp


end
